theory Spec2Isabelle
  imports Main
begin

section \<open>Strings, paths and text helpers\<close>

text \<open>
  Python strings are modelled by their UTF-8 bytes, as \<open>string\<close>. A backslash cannot be
  written inside a HOL string literal, so Windows paths are built from their components.
\<close>

definition bs :: char where
  "bs = CHR 0x5C"

fun win :: "string list \<Rightarrow> string" where
  "win [] = []"
| "win [c] = c"
| "win (c # cs) = c @ bs # win cs"

text \<open>\<open>str.split(sep)\<close> for a one-character separator: never returns the empty list.\<close>

fun split_on :: "char \<Rightarrow> string \<Rightarrow> string list" where
  "split_on c [] = [[]]"
| "split_on c (x # xs) =
     (if x = c then [] # split_on c xs
      else (case split_on c xs of y # ys \<Rightarrow> (x # y) # ys | [] \<Rightarrow> [[x]]))"

text \<open>\<open>str.lower()\<close>, on the ASCII letters.\<close>

definition lower_char :: "char \<Rightarrow> char" where
  "lower_char c =
     (case map_of (zip ''ABCDEFGHIJKLMNOPQRSTUVWXYZ'' ''abcdefghijklmnopqrstuvwxyz'') c of
        Some l \<Rightarrow> l
      | None \<Rightarrow> c)"

definition lower :: "string \<Rightarrow> string" where
  "lower s = map lower_char s"

text \<open>\<open>str.upper()\<close>, on the ASCII letters.\<close>

definition upper_char :: "char \<Rightarrow> char" where
  "upper_char c =
     (case map_of (zip ''abcdefghijklmnopqrstuvwxyz'' ''ABCDEFGHIJKLMNOPQRSTUVWXYZ'') c of
        Some u \<Rightarrow> u
      | None \<Rightarrow> c)"

definition upper :: "string \<Rightarrow> string" where
  "upper s = map upper_char s"

definition endswith :: "string \<Rightarrow> string \<Rightarrow> bool" where
  "endswith s e = (length e \<le> length s \<and> drop (length s - length e) s = e)"

definition startswith :: "string \<Rightarrow> string \<Rightarrow> bool" where
  "startswith s p = (take (length p) s = p)"

text \<open>
  \<open>bytes.decode("utf-8")\<close> is strict: it raises on a byte sequence that is not well-formed
  UTF-8 (overlong forms, surrogates and values above U+10FFFF included). Since text is kept
  as its UTF-8 bytes, decoding is this check.
\<close>

definition cont :: "nat \<Rightarrow> bool" where
  "cont b = (128 \<le> b \<and> b \<le> 191)"

fun utf8_bytes_ok :: "nat list \<Rightarrow> bool" where
  "utf8_bytes_ok [] = True"
| "utf8_bytes_ok (b # bs') =
     (if b < 128 then utf8_bytes_ok bs'
      else if 194 \<le> b \<and> b \<le> 223 then
        (case bs' of c1 # r \<Rightarrow> cont c1 \<and> utf8_bytes_ok r | _ \<Rightarrow> False)
      else if 224 \<le> b \<and> b \<le> 239 then
        (case bs' of c1 # c2 # r \<Rightarrow>
           cont c1 \<and> cont c2 \<and> (if b = 224 then 160 \<le> c1 else True)
           \<and> (if b = 237 then c1 \<le> 159 else True) \<and> utf8_bytes_ok r
         | _ \<Rightarrow> False)
      else if 240 \<le> b \<and> b \<le> 244 then
        (case bs' of c1 # c2 # c3 # r \<Rightarrow>
           cont c1 \<and> cont c2 \<and> cont c3 \<and> (if b = 240 then 144 \<le> c1 else True)
           \<and> (if b = 244 then c1 \<le> 143 else True) \<and> utf8_bytes_ok r
         | _ \<Rightarrow> False)
      else False)"

definition utf8_ok :: "string \<Rightarrow> bool" where
  "utf8_ok s = utf8_bytes_ok (map of_char s)"

text \<open>The number of bytes of the character that starts with a given byte.\<close>

definition cp_len :: "char \<Rightarrow> nat" where
  "cp_len x =
     (let b = (of_char x :: nat) in if b < 192 then 1 else if b < 224 then 2 else if b < 240 then 3 else 4)"

text \<open>
  The length of a decoded text in UTF-16 code units, which is how Windows measures it: one
  unit for a character of up to three bytes, two for a character of four.
\<close>

fun utf16_units :: "nat list \<Rightarrow> nat" where
  "utf16_units [] = 0"
| "utf16_units (b # r) =
     (if b < 128 then 1 else if b < 192 then 0 else if b < 240 then 1 else 2) + utf16_units r"

section \<open>The host: persisted environment store, file system, external programs\<close>

text \<open>
  Everything the script does is an exchange with its host. The host's persisted state is a
  \<open>world\<close>: the \<open>Path\<close> value of each scope of the environment store (\<open>None\<close> when the
  registry value does not exist) and the file system, keyed by path name. What external
  programs and servers answer is not decided by the script: it is the \<open>host\<close> record, whose
  fields are arbitrary functions of the world, and every theorem below holds for all of them.
\<close>

datatype scope = Machine | User

datatype node = File string | Dir

record world =
  env_store :: "scope \<Rightarrow> string option"
  fs :: "string \<Rightarrow> node option"

text \<open>
  \<open>subprocess.run(argv)\<close> raises \<open>OSError\<close> when the program cannot be started and
  otherwise returns a \<open>CompletedProcess\<close>: the return code and the captured standard output
  (empty when output is not captured).
\<close>

datatype proc = NotStarted | Completed int string

record host =
  spawn :: "string list \<Rightarrow> world \<Rightarrow> proc \<times> world"
  http_get :: "string \<Rightarrow> world \<Rightarrow> string option"
  urlretrieve :: "string \<Rightarrow> string \<Rightarrow> world \<Rightarrow> world option"
  read_zip :: "string \<Rightarrow> (string \<times> node) list option"
  pathext :: "string list"
  localappdata :: "string option"

section \<open>The running script: state, events, abnormal ends\<close>

datatype level = DEBUG | INFO | WARNING | ERROR

datatype event =
    Log level string
  | Spawn "string list"
  | HttpGet string
  | Download string string
  | Input string

datatype pyexn =
    OSError | RequestException | URLError | UnicodeDecodeError | ValueError | EOFError | BadZipFile

text \<open>
  A run ends early by \<open>sys.exit(n)\<close> or by an exception nobody catches (the script has no
  \<open>try\<close>); the interpreter's exit status is then \<open>n\<close>, respectively 1.
\<close>

datatype abort = SysExit int | Uncaught pyexn

record state =
  world :: world
  environ_path :: string
  stdin :: "string list"
  git_path :: string
  flutter_path :: string
  sdkmanager_path :: "string option"
  trace :: "event list"

type_synonym 'a result = "(abort \<times> state) + 'a"

definition emit :: "event \<Rightarrow> state \<Rightarrow> state" where
  "emit e s = s\<lparr>trace := trace s @ [e]\<rparr>"

text \<open>
  \<open>logger.info\<close>, \<open>logger.warning\<close>, ...: the call is recorded; which levels the handler
  prints (the verbosity flag) is outside the model.
\<close>

definition logger :: "level \<Rightarrow> string \<Rightarrow> state \<Rightarrow> state" where
  "logger l msg s = emit (Log l msg) s"

definition run :: "host \<Rightarrow> string list \<Rightarrow> state \<Rightarrow> (int \<times> string \<times> state) result" where
  "run h argv s =
     (case spawn h argv (world s) of
        (NotStarted, w') \<Rightarrow> Inl (Uncaught OSError, (emit (Spawn argv) s)\<lparr>world := w'\<rparr>)
      | (Completed rc out, w') \<Rightarrow> Inr (rc, out, (emit (Spawn argv) s)\<lparr>world := w'\<rparr>))"

text \<open>\<open>input(prompt)\<close>: the next line of standard input, \<open>EOFError\<close> when there is none.\<close>

definition input :: "string \<Rightarrow> state \<Rightarrow> (string \<times> state) result" where
  "input prompt s =
     (case stdin s of
        [] \<Rightarrow> Inl (Uncaught EOFError, emit (Input prompt) s)
      | l # ls \<Rightarrow> Inr (l, (emit (Input prompt) s)\<lparr>stdin := ls\<rparr>))"

definition exit_status :: "state result \<Rightarrow> int" where
  "exit_status r =
     (case r of Inr _ \<Rightarrow> 0 | Inl (SysExit n, _) \<Rightarrow> n | Inl (Uncaught _, _) \<Rightarrow> 1)"

section \<open>PathSynchronizer: \<open>update_path\<close> (installer.py, lines 60-69)\<close>

definition update_path_argv :: "string list" where
  \<open>update_path_argv =
     [''pwsh'', ''-c'',
      ''echo ([System.Environment]::GetEnvironmentVariable("Path","Machine") + ";"''
      @ '' + [System.Environment]::GetEnvironmentVariable("Path","User"))'']\<close>

text \<open>
  The standard output of the command is decoded and assigned to \<open>os.environ["PATH"]\<close>; the
  return code is not looked at. The assignment stores the value with \<open>os.putenv\<close>, which
  raises \<open>ValueError\<close> and leaves the variable as it was when the value holds a NUL
  character, and on Windows also when the string \<open>PATH=value\<close> is longer than 32767
  characters.
\<close>

definition putenv_ok :: "string \<Rightarrow> bool" where
  "putenv_ok v =
     (CHR 0x00 \<notin> set v \<and> length ''PATH='' + utf16_units (map of_char v) \<le> 32767)"

definition update_path :: "host \<Rightarrow> state \<Rightarrow> state result" where
  "update_path h s =
     (case run h update_path_argv s of
        Inl a \<Rightarrow> Inl a
      | Inr (rc, out, s') \<Rightarrow>
          if utf8_ok out then
            (if putenv_ok out then Inr (s'\<lparr>environ_path := out\<rparr>)
             else Inl (Uncaught ValueError, s'))
          else Inl (Uncaught UnicodeDecodeError, s'))"

subsection \<open>What PowerShell does with the command\<close>

text \<open>
  \<open>pwsh -c text\<close> runs the text as a PowerShell command. The commands read here are those
  of the form \<open>echo (operand + ... + operand)\<close>, an operand being a double-quoted string
  without \<open>$\<close>, backtick or quote inside, or a call
  \<open>[System.Environment]::GetEnvironmentVariable("Path","Machine")\<close>, respectively
  \<open>"User"\<close>; any other text is not given a meaning (\<open>None\<close>). The operands and their
  order are read from the text. \<open>GetEnvironmentVariable\<close> of a value that does not exist
  is the empty string in a concatenation, and \<open>echo\<close> ends its line with CR LF on this
  host.
\<close>

datatype ps_expr = GetPath scope | Str string | Plus ps_expr ps_expr

definition scope_value :: "world \<Rightarrow> scope \<Rightarrow> string" where
  "scope_value w sc = (case env_store w sc of None \<Rightarrow> [] | Some v \<Rightarrow> v)"

fun ps_eval :: "world \<Rightarrow> ps_expr \<Rightarrow> string" where
  "ps_eval w (GetPath sc) = scope_value w sc"
| "ps_eval w (Str t) = t"
| "ps_eval w (Plus a b) = ps_eval w a @ ps_eval w b"

definition eol :: string where
  "eol = [CHR 0x0D, CHR 0x0A]"

definition strip_prefix :: "string \<Rightarrow> string \<Rightarrow> string option" where
  "strip_prefix p t = (if startswith t p then Some (drop (length p) t) else None)"

definition skip_spaces :: "string \<Rightarrow> string" where
  "skip_spaces t = dropWhile (\<lambda>c. c = CHR '' '') t"

text \<open>A double-quoted string: its value and the text after the closing quote.\<close>

definition ps_quoted :: "string \<Rightarrow> (string \<times> string) option" where
  "ps_quoted t =
     (case strip_prefix [CHR 0x22] t of
        None \<Rightarrow> None
      | Some r \<Rightarrow>
          (case dropWhile (\<lambda>c. c \<noteq> CHR 0x22) r of
             [] \<Rightarrow> None
           | q # rest \<Rightarrow>
               if list_ex (\<lambda>c. c = CHR ''$'' \<or> c = CHR 0x60) (takeWhile (\<lambda>c. c \<noteq> CHR 0x22) r)
               then None
               else Some (takeWhile (\<lambda>c. c \<noteq> CHR 0x22) r, rest)))"

definition ps_target :: "string \<Rightarrow> scope option" where
  "ps_target t =
     (if t = ''Machine'' then Some Machine else if t = ''User'' then Some User else None)"

definition ps_operand :: "string \<Rightarrow> (ps_expr \<times> string) option" where
  "ps_operand t =
     (case strip_prefix ''[System.Environment]::GetEnvironmentVariable('' t of
        None \<Rightarrow> map_option (\<lambda>(v, r). (Str v, r)) (ps_quoted t)
      | Some r \<Rightarrow>
          (case ps_quoted r of
             None \<Rightarrow> None
           | Some (name, r1) \<Rightarrow>
               (case Option.bind (strip_prefix '','' r1) ps_quoted of
                  None \<Rightarrow> None
                | Some (target, r2) \<Rightarrow>
                    (case (ps_target target, strip_prefix '')'' r2) of
                       (Some sc, Some r3) \<Rightarrow>
                         if name = ''Path'' then Some (GetPath sc, r3) else None
                     | _ \<Rightarrow> None))))"

text \<open>
  The operands that follow the first one, from left to right. Every round consumes a
  \<open>+\<close>, so as many rounds as the text has characters, and one more, are enough.
\<close>

fun ps_sum :: "nat \<Rightarrow> ps_expr \<Rightarrow> string \<Rightarrow> (ps_expr \<times> string) option" where
  "ps_sum 0 e t = None"
| "ps_sum (Suc n) e t =
     (case strip_prefix ''+'' (skip_spaces t) of
        None \<Rightarrow> Some (e, t)
      | Some r \<Rightarrow>
          (case ps_operand (skip_spaces r) of
             None \<Rightarrow> None
           | Some (e', r') \<Rightarrow> ps_sum n (Plus e e') r'))"

definition ps_command :: "string \<Rightarrow> ps_expr option" where
  "ps_command t =
     (case Option.bind (strip_prefix ''echo'' t) (\<lambda>r. strip_prefix ''('' (skip_spaces r)) of
        None \<Rightarrow> None
      | Some r \<Rightarrow>
          (case ps_operand (skip_spaces r) of
             None \<Rightarrow> None
           | Some (e, r1) \<Rightarrow>
               (case ps_sum (Suc (length r1)) e r1 of
                  None \<Rightarrow> None
                | Some (e', r2) \<Rightarrow> if skip_spaces r2 = '')'' then Some e' else None)))"

definition pwsh :: "string list \<Rightarrow> world \<Rightarrow> (proc \<times> world) option" where
  "pwsh argv w =
     (case argv of
        [prog, flag, text] \<Rightarrow>
          if prog = ''pwsh'' \<and> flag = ''-c''
          then map_option (\<lambda>e. (Completed 0 (ps_eval w e @ eol), w)) (ps_command text)
          else None
      | _ \<Rightarrow> None)"

section \<open>ToolLocator: \<open>shutil.which(cmd, path=...)\<close>\<close>

text \<open>
  \<open>which\<close> is the standard library's, as it works on Windows (Python 3.11). A command
  with a directory part is looked up as it stands. Otherwise an empty \<open>path\<close> finds
  nothing; a non-empty one is split at \<open>;\<close>, the current directory is put in front
  unless it is listed, the candidate file names are \<open>cmd\<close> itself when it already ends
  with one of the \<open>PATHEXT\<close> extensions and \<open>cmd\<close> followed by each extension
  otherwise, and the first candidate that exists as a file, directories first in path order,
  is returned. (The library also skips a directory it has already probed, which cannot change
  the first hit.)
\<close>

definition access :: "world \<Rightarrow> string \<Rightarrow> bool" where
  "access w name = (case fs w name of Some (File _) \<Rightarrow> True | _ \<Rightarrow> False)"

definition is_sep :: "char \<Rightarrow> bool" where
  "is_sep c = (c = bs \<or> c = CHR ''/'')"

text \<open>\<open>normp.find(sep, start)\<close>: the index of the first separator at or after \<open>start\<close>.\<close>

fun find_sep :: "string \<Rightarrow> nat \<Rightarrow> nat option" where
  "find_sep [] start = None"
| "find_sep (c # cs) start =
     (if start = 0 \<and> is_sep c then Some 0
      else map_option Suc (find_sep cs (start - 1)))"

definition unc_prefix :: string where
  "unc_prefix = [bs, bs, CHR ''?'', bs] @ ''UNC'' @ [bs]"

text \<open>
  \<open>ntpath.splitdrive\<close>: a path that starts with two separators has a UNC or device drive,
  which ends before the second separator after the prefix; otherwise a drive is the first
  character and a colon after it. Positions are counted in bytes, the first character being
  skipped in its encoded length, which gives the split the library makes on the decoded text.
\<close>

definition splitdrive :: "string \<Rightarrow> string \<times> string" where
  "splitdrive p =
     (if 2 \<le> length p then
        if is_sep (p ! 0) \<and> is_sep (p ! 1) then
          (case find_sep p
                  (if upper (map (\<lambda>c. if c = CHR ''/'' then bs else c) (take 8 p)) = unc_prefix
                   then 8 else 2) of
             None \<Rightarrow> (p, [])
           | Some i \<Rightarrow>
               (case find_sep p (i + 1) of
                  None \<Rightarrow> (p, [])
                | Some j \<Rightarrow> (take j p, drop j p)))
        else if take 1 (drop (cp_len (p ! 0)) p) = '':'' then
          (take (cp_len (p ! 0) + 1) p, drop (cp_len (p ! 0) + 1) p)
        else ([], p)
      else ([], p))"

text \<open>\<open>os.path.join(path, p)\<close>, that is \<open>ntpath.join\<close>, for two arguments.\<close>

definition path_join :: "string \<Rightarrow> string \<Rightarrow> string" where
  "path_join path p =
     (case (splitdrive path, splitdrive p) of
        ((result_drive, result_path), (p_drive, p_path)) \<Rightarrow>
          (let (drive, rest) =
             (if p_path \<noteq> [] \<and> is_sep (hd p_path) then
                (if p_drive \<noteq> [] then p_drive
                 else if result_drive = [] then p_drive else result_drive, p_path)
              else if p_drive \<noteq> [] \<and> p_drive \<noteq> result_drive
                      \<and> lower p_drive \<noteq> lower result_drive then (p_drive, p_path)
              else
                (if p_drive \<noteq> [] \<and> p_drive \<noteq> result_drive then p_drive else result_drive,
                 (if result_path \<noteq> [] \<and> \<not> is_sep (last result_path) then result_path @ [bs]
                  else result_path) @ p_path))
           in if rest \<noteq> [] \<and> \<not> is_sep (hd rest) \<and> drive \<noteq> [] \<and> last drive \<noteq> CHR '':''
              then drive @ bs # rest
              else drive @ rest))"

text \<open>\<open>os.path.dirname(p)\<close>: the drive and what precedes the last separator.\<close>

definition dirname :: "string \<Rightarrow> string" where
  "dirname p =
     (case splitdrive p of
        (d, r) \<Rightarrow>
          (let head = rev (dropWhile (\<lambda>c. \<not> is_sep c) (rev r));
               stripped = rev (dropWhile is_sep (rev head))
           in d @ (if stripped = [] then head else stripped)))"

definition files_for :: "string list \<Rightarrow> string \<Rightarrow> string list" where
  "files_for exts cmd =
     (if list_ex (\<lambda>e. endswith (lower cmd) (lower e)) exts then [cmd]
      else map (\<lambda>e. cmd @ e) exts)"

fun find_file :: "world \<Rightarrow> string list \<Rightarrow> string list \<Rightarrow> string option" where
  "find_file w [] files = None"
| "find_file w (d # ds) files =
     (case find (access w) (map (path_join d) files) of
        Some n \<Rightarrow> Some n
      | None \<Rightarrow> find_file w ds files)"

definition search_dirs :: "string \<Rightarrow> string list" where
  "search_dirs path =
     (let dirs = split_on CHR '';'' path in if ''.'' \<in> set dirs then dirs else ''.'' # dirs)"

definition which :: "host \<Rightarrow> world \<Rightarrow> string \<Rightarrow> string \<Rightarrow> string option" where
  "which h w cmd path =
     (if dirname cmd \<noteq> [] then (if access w cmd then Some cmd else None)
      else if path = [] then None
      else find_file w (search_dirs path) (files_for (pathext h) cmd))"

section \<open>RemoteResolver: the two \<open>re.search\<close> patterns\<close>

text \<open>
  Both patterns have the shape \<open>literal (\S*) tail\<close>. \<open>re.search\<close> tries the start positions
  from left to right; at a position where the literal matches, \<open>\S*\<close> first takes the whole
  run of non-whitespace and gives characters back one at a time until the tail matches.
  \<open>\S\<close> excludes Unicode whitespace, here recognised by its UTF-8 encoding; \<open>.\<close> is any
  character but a line feed, of whatever encoded length.
\<close>

fun space_at :: "nat list \<Rightarrow> bool" where
  "space_at [] = False"
| "space_at (b # r) =
     (if (9 \<le> b \<and> b \<le> 13) \<or> (28 \<le> b \<and> b \<le> 32) then True
      else if b = 194 then (case r of c # _ \<Rightarrow> c = 133 \<or> c = 160 | _ \<Rightarrow> False)
      else if b = 225 then (case r of c1 # c2 # _ \<Rightarrow> c1 = 154 \<and> c2 = 128 | _ \<Rightarrow> False)
      else if b = 226 then
        (case r of c1 # c2 # _ \<Rightarrow>
           (c1 = 128 \<and> ((128 \<le> c2 \<and> c2 \<le> 138) \<or> c2 = 168 \<or> c2 = 169 \<or> c2 = 175))
           \<or> (c1 = 129 \<and> c2 = 159)
         | _ \<Rightarrow> False)
      else if b = 227 then (case r of c1 # c2 # _ \<Rightarrow> c1 = 128 \<and> c2 = 128 | _ \<Rightarrow> False)
      else False)"

fun nonspace_run :: "string \<Rightarrow> nat" where
  "nonspace_run [] = 0"
| "nonspace_run (x # xs) =
     (if space_at (map of_char (x # xs)) then 0 else Suc (nonspace_run xs))"

datatype atom = Lit char | Dot

fun match_atoms :: "atom list \<Rightarrow> string \<Rightarrow> nat option" where
  "match_atoms [] t = Some 0"
| "match_atoms (a # as) [] = None"
| "match_atoms (Lit c # as) (x # xs) =
     (if x = c then map_option Suc (match_atoms as xs) else None)"
| "match_atoms (Dot # as) (x # xs) =
     (if x = CHR 0x0A \<or> length (x # xs) < cp_len x then None
      else map_option (\<lambda>n. cp_len x + n) (match_atoms as (drop (cp_len x - 1) xs)))"

fun backtrack :: "atom list \<Rightarrow> string \<Rightarrow> nat \<Rightarrow> nat option" where
  "backtrack tail r 0 = match_atoms tail r"
| "backtrack tail r (Suc j) =
     (case match_atoms tail (drop (Suc j) r) of
        Some n \<Rightarrow> Some (Suc j + n)
      | None \<Rightarrow> backtrack tail r j)"

definition match_at :: "string \<Rightarrow> atom list \<Rightarrow> string \<Rightarrow> string option" where
  "match_at pre tail t =
     (if startswith t pre then
        (let r = drop (length pre) t
         in map_option (\<lambda>n. pre @ take n r) (backtrack tail r (nonspace_run r)))
      else None)"

fun re_search :: "string \<Rightarrow> atom list \<Rightarrow> string \<Rightarrow> string option" where
  "re_search pre tail [] = match_at pre tail []"
| "re_search pre tail (x # xs) =
     (case match_at pre tail (x # xs) of
        Some m \<Rightarrow> Some m
      | None \<Rightarrow> re_search pre tail xs)"

text \<open>\<open>(/git-for-windows/git/releases/download/(\S*)64-bit\.exe)\<close>\<close>

definition git_installer_re :: "string \<Rightarrow> string option" where
  "git_installer_re =
     re_search ''/git-for-windows/git/releases/download/'' (map Lit ''64-bit.exe'')"

text \<open>\<open>(commandlinetools-win-(\S*)_latest.zip)\<close>: the dot is not escaped.\<close>

definition commandlinetools_installer_re :: "string \<Rightarrow> string option" where
  "commandlinetools_installer_re =
     re_search ''commandlinetools-win-'' (map Lit ''_latest'' @ Dot # map Lit ''zip'')"

section \<open>File-system operations used by the extraction\<close>

definition under :: "string \<Rightarrow> string \<Rightarrow> bool" where
  "under d p = (p = d \<or> startswith p (d @ [bs]))"

text \<open>The parent directories of a path, outermost first; a bare drive is not one.\<close>

definition ancestors :: "string \<Rightarrow> string list" where
  "ancestors p =
     map (\<lambda>i. take i p)
       (filter (\<lambda>i. p ! i = bs \<and> p ! (i - 1) \<noteq> CHR '':'') [1..<length p])"

fun make_dirs :: "string list \<Rightarrow> (string \<Rightarrow> node option) \<Rightarrow> (string \<Rightarrow> node option) option" where
  "make_dirs [] f = Some f"
| "make_dirs (d # ds) f =
     (case f d of
        Some (File _) \<Rightarrow> None
      | Some Dir \<Rightarrow> make_dirs ds f
      | None \<Rightarrow> make_dirs ds (f(d \<mapsto> Dir)))"

text \<open>
  \<open>Path.mkdir(parents=True, exist_ok=True)\<close>: nothing to do for an existing directory, an
  error when a file is in the way, and otherwise the missing directories are created.
\<close>

definition mkdir_parents :: "string \<Rightarrow> (string \<Rightarrow> node option) \<Rightarrow> (string \<Rightarrow> node option) option" where
  "mkdir_parents p f =
     (case f p of
        Some Dir \<Rightarrow> Some f
      | Some (File _) \<Rightarrow> None
      | None \<Rightarrow> make_dirs (ancestors p @ [p]) f)"

text \<open>\<open>shutil.rmtree\<close> removes a directory with everything below it and raises on a file.\<close>

definition rmtree :: "string \<Rightarrow> (string \<Rightarrow> node option) \<Rightarrow> (string \<Rightarrow> node option) option" where
  "rmtree d f =
     (case f d of
        Some Dir \<Rightarrow> Some (\<lambda>p. if under d p then None else f p)
      | _ \<Rightarrow> None)"

text \<open>
  \<open>ZipFile.extractall(target)\<close> writes every member below the target; \<open>read_zip\<close> of the
  host lists the members of an archive (directories included, names with the host's
  separator) or fails on a file that is no archive.
\<close>

fun extractall :: "(string \<times> node) list \<Rightarrow> string \<Rightarrow> (string \<Rightarrow> node option) \<Rightarrow> (string \<Rightarrow> node option)" where
  "extractall [] target f = f"
| "extractall ((m, n) # ms) target f = extractall ms target (f(target @ bs # m \<mapsto> n))"

text \<open>\<open>Path.rename\<close> on Windows: the source must exist and the destination must not.\<close>

definition rename :: "string \<Rightarrow> string \<Rightarrow> (string \<Rightarrow> node option) \<Rightarrow> (string \<Rightarrow> node option) option" where
  "rename a b f =
     (if f a = None then None
      else if f b = None then
        Some (\<lambda>p. if under b p then f (a @ drop (length b) p)
                  else if under a p then None else f p)
      else None)"

definition set_fs :: "(string \<Rightarrow> node option) \<Rightarrow> state \<Rightarrow> state" where
  "set_fs f s = s\<lparr>world := (world s)\<lparr>fs := f\<rparr>\<rparr>"

section \<open>Building blocks of the script\<close>

definition and_then :: "'a result \<Rightarrow> ('a \<Rightarrow> 'b result) \<Rightarrow> 'b result" where
  "and_then r k = (case r of Inl a \<Rightarrow> Inl a | Inr x \<Rightarrow> k x)"

text \<open>\<open>requests.get(url).text\<close>; a connection failure raises.\<close>

definition fetch :: "host \<Rightarrow> string \<Rightarrow> state \<Rightarrow> (string \<times> state) result" where
  "fetch h url s =
     (case http_get h url (world s) of
        None \<Rightarrow> Inl (Uncaught RequestException, emit (HttpGet url) s)
      | Some page \<Rightarrow> Inr (page, emit (HttpGet url) s))"

text \<open>\<open>urllib.request.urlretrieve(url, name, ...)\<close> inside the progress bar's \<open>with\<close> block.\<close>

definition retrieve :: "host \<Rightarrow> string \<Rightarrow> string \<Rightarrow> state \<Rightarrow> state result" where
  "retrieve h url name s =
     (case urlretrieve h url name (world s) of
        None \<Rightarrow> Inl (Uncaught URLError, emit (Download url name) s)
      | Some w' \<Rightarrow> Inr ((emit (Download url name) s)\<lparr>world := w'\<rparr>))"

subsection \<open>Writing the persisted \<open>Path\<close> (lines 179-199 and 269-286)\<close>

text \<open>
  The two places differ in the registry key they read, the directory they add and the
  target scope they name. The value read from the registry is put into the command text
  followed by \<open>;\<close> and the directory, whatever it already contains.
\<close>

definition scope_name :: "scope \<Rightarrow> string" where
  "scope_name sc = (case sc of Machine \<Rightarrow> ''Machine'' | User \<Rightarrow> ''User'')"

definition set_path_argv :: "scope \<Rightarrow> string \<Rightarrow> string list" where
  \<open>set_path_argv sc v =
     [''pwsh'', ''-c'',
      ''[Environment]::SetEnvironmentVariable("Path",'' @ '' "'' @ v @ ''",''
      @ '' [System.EnvironmentVariableTarget]::'' @ scope_name sc @ '')'']\<close>

definition path_failure_msg :: string where
  "path_failure_msg =
     ''Failed to update PATH, may be caused by permission issues, please update PATH manually''"

definition append_path :: "host \<Rightarrow> scope \<Rightarrow> string \<Rightarrow> state \<Rightarrow> state result" where
  "append_path h sc dir s =
     (case env_store (world s) sc of
        None \<Rightarrow> Inl (Uncaught OSError, s)
      | Some v \<Rightarrow>
          and_then (run h (set_path_argv sc (v @ '';'' @ dir)) s) (\<lambda>(rc, out, s1).
            Inr (if rc = 0 then logger INFO ''Updated PATH'' s1
                 else logger WARNING path_failure_msg s1)))"

text \<open>
  What PowerShell does with the write: it stores the value when the scope may be written
  (exit 0) and otherwise leaves the store alone (exit 1).
\<close>

definition ps_set_path :: "bool \<Rightarrow> scope \<Rightarrow> string \<Rightarrow> world \<Rightarrow> proc \<times> world" where
  "ps_set_path permitted sc v w =
     (if permitted then (Completed 0 [], w\<lparr>env_store := (env_store w)(sc := Some v)\<rparr>)
      else (Completed 1 [], w))"

section \<open>The version-control tool (lines 96-156)\<close>

definition winget_argv :: "string list" where
  "winget_argv = [''winget'', ''install'', ''--id'', ''Git.Git'', ''-e'', ''--source'', ''winget'']"

definition git_release_url :: string where
  "git_release_url = ''https://github.com/git-for-windows/git/releases/latest''"

definition git_manual_msg :: string where
  "git_manual_msg =
     ''Failed to install Git, install manually from https://git-scm.com/download/win''
     @ '' and try running again''"

definition git_winget_msg :: string where
  "git_winget_msg =
     ''Failed to install Git with winget (perhaps winget not installed?),''
     @ '' trying manual download''"

text \<open>\<open>url.split("/")[-1]\<close>\<close>

definition installer_name :: "string \<Rightarrow> string" where
  "installer_name url = last (split_on CHR ''/'' url)"

definition git_installer_url :: "string \<Rightarrow> string" where
  "git_installer_url m = ''https://github.com'' @ m"

text \<open>Lines 117-156: resolve the installer on the release page, download it, run it.\<close>

definition git_manual :: "host \<Rightarrow> state \<Rightarrow> state result" where
  "git_manual h s =
     and_then (fetch h git_release_url s) (\<lambda>(page, s1).
       case git_installer_re page of
         None \<Rightarrow> Inl (SysExit 1, logger ERROR git_manual_msg s1)
       | Some m \<Rightarrow>
           and_then (retrieve h (git_installer_url m)
                      (installer_name (git_installer_url m)) s1) (\<lambda>s2.
           and_then (run h [installer_name (git_installer_url m)] s2) (\<lambda>(rc, out, s3).
           and_then (update_path h s3) (\<lambda>s4.
             if rc = 0 \<and> which h (world s4) ''git'' (environ_path s4) \<noteq> None
             then Inr (logger INFO ''Git successfully installed''
                    (s4\<lparr>git_path := the (which h (world s4) ''git'' (environ_path s4))\<rparr>))
             else Inl (SysExit 1, logger ERROR git_manual_msg s4)))))"

definition ensure_git :: "host \<Rightarrow> state \<Rightarrow> state result" where
  "ensure_git h s =
     and_then (update_path h ((logger INFO ''Checking for Git...'' s)\<lparr>git_path := ''git''\<rparr>)) (\<lambda>s1.
       case which h (world s1) ''git'' (environ_path s1) of
         Some p \<Rightarrow> Inr (logger INFO ''Git found'' (s1\<lparr>git_path := p\<rparr>))
       | None \<Rightarrow>
           and_then (run h winget_argv
                      (logger INFO ''Attempting to install Git with winget...'' s1)) (\<lambda>(rc, out, s2).
           and_then (update_path h s2) (\<lambda>s3.
             if rc = 0 \<and> which h (world s3) ''git'' (environ_path s3) \<noteq> None
             then Inr (logger INFO ''Git successfully installed with winget''
                    (s3\<lparr>git_path := the (which h (world s3) ''git'' (environ_path s3))\<rparr>))
             else git_manual h (logger WARNING git_winget_msg s3))))"

section \<open>The SDK (lines 158-209)\<close>

definition flutter_bin :: string where
  "flutter_bin = win [''C:'', ''src'', ''flutter'', ''bin'']"

definition clone_argv :: "string \<Rightarrow> string list" where
  "clone_argv git =
     [git, ''clone'', ''https://github.com/flutter/flutter.git'', ''-b'', ''stable'',
      win [''C:'', ''src'']]"

definition flutter_manual_msg :: string where
  "flutter_manual_msg =
     ''Failed to install Flutter SDK, please install manually:''
     @ '' https://docs.flutter.dev/get-started/install/windows''"

text \<open>The return code of the clone is not looked at.\<close>

definition ensure_flutter :: "host \<Rightarrow> state \<Rightarrow> state result" where
  "ensure_flutter h s =
     and_then (update_path h
                ((logger INFO ''Checking for Flutter...'' s)\<lparr>flutter_path := ''flutter''\<rparr>)) (\<lambda>s1.
       case which h (world s1) ''flutter'' (environ_path s1) of
         Some p \<Rightarrow>
           Inr (logger INFO ''Flutter SDK is already installed, skipping...''
                 (s1\<lparr>flutter_path := p\<rparr>))
       | None \<Rightarrow>
           and_then (run h (clone_argv (git_path s1))
                      (logger INFO (''Attempting to clone Flutter in '' @ win [''C:'', ''src...''])
                         s1)) (\<lambda>(rc, out, s2).
           and_then (append_path h Machine flutter_bin
                      (logger INFO ''Attempting to update PATH...''
                        (logger INFO (''Cloned Flutter to '' @ win [''C:'', ''src'', ''flutter''])
                           s2))) (\<lambda>s3.
           and_then (update_path h s3) (\<lambda>s4.
             case which h (world s4) ''flutter'' (environ_path s4) of
               Some p \<Rightarrow>
                 Inr (logger INFO ''Flutter SDK successfully installed'' (s4\<lparr>flutter_path := p\<rparr>))
             | None \<Rightarrow> Inl (SysExit 1, logger ERROR flutter_manual_msg s4)))))"

section \<open>The optional platform tools (lines 211-302)\<close>

definition android_prompt :: string where
  "android_prompt =
     ''Do you want to install Android SDK, Android SDK Command-line Tools, and''
     @ '' Android SDK Build-Tools (only install if you do not already have it''
     @ '' installed; if unsure, do not install and opt for manual installation''
     @ '' instead)? [y/N] ''"

definition studio_url :: string where
  "studio_url = ''https://developer.android.com/studio''"

definition android_bin :: string where
  "android_bin =
     win [''%LocalAppData%'', ''Android'', ''Sdk'', ''cmdline-tools'', ''latest'', ''bin'']"

definition android_manual_msg :: string where
  "android_manual_msg =
     ''Failed to install Android command line tools, please continue install manually:''
     @ '' https://docs.flutter.dev/get-started/install/windows#android-setup''"

text \<open>\<open>os.path.expandvars\<close> leaves \<open>%LOCALAPPDATA%\<close> as it is when the variable is not set.\<close>

definition sdk_dir :: "host \<Rightarrow> string" where
  "sdk_dir h =
     (case localappdata h of
        Some v \<Rightarrow> win [v, ''Android'', ''Sdk'']
      | None \<Rightarrow> win [''%LOCALAPPDATA%'', ''Android'', ''Sdk''])"

definition cmdline_tools :: "host \<Rightarrow> string" where
  "cmdline_tools h = win [sdk_dir h, ''cmdline-tools'']"

text \<open>Lines 259-265: remove the directory, create it again, extract, rename the inner one.\<close>

definition overwrite :: "host \<Rightarrow> string \<Rightarrow> state \<Rightarrow> state result" where
  "overwrite h name s =
     (case rmtree (cmdline_tools h) (fs (world s)) of
        None \<Rightarrow> Inl (Uncaught OSError, s)
      | Some f1 \<Rightarrow>
          (case mkdir_parents (cmdline_tools h) f1 of
             None \<Rightarrow> Inl (Uncaught OSError, set_fs f1 s)
           | Some f2 \<Rightarrow>
               (case f2 name of
                  Some (File content) \<Rightarrow>
                    (case read_zip h content of
                       None \<Rightarrow> Inl (Uncaught BadZipFile, set_fs f2 s)
                     | Some members \<Rightarrow>
                         (let f3 = extractall members (cmdline_tools h) f2
                          in case rename (win [cmdline_tools h, ''cmdline-tools''])
                                    (win [cmdline_tools h, ''latest'']) f3 of
                               None \<Rightarrow> Inl (Uncaught OSError, set_fs f3 s)
                             | Some f4 \<Rightarrow> Inr (set_fs f4 s)))
                | _ \<Rightarrow> Inl (Uncaught OSError, set_fs f2 s))))"

text \<open>
  Lines 246-267. The archive is opened only inside the branch for an existing
  \<open>cmdline-tools\<close> directory; that \<open>if\<close> has no \<open>else\<close>.
\<close>

definition extract_step :: "host \<Rightarrow> string \<Rightarrow> state \<Rightarrow> state result" where
  "extract_step h name s =
     (let s1 = logger DEBUG (''Creating '' @ sdk_dir h @ '' if not exists'')
                 (logger INFO (''Downloaded Android command line tools, attempting to unzip to ''
                                @ sdk_dir h) s)
      in case mkdir_parents (sdk_dir h) (fs (world s1)) of
           None \<Rightarrow> Inl (Uncaught OSError, s1)
         | Some f1 \<Rightarrow>
             (let s2 = logger DEBUG (''Unzipping '' @ name @ '' to '' @ sdk_dir h) (set_fs f1 s1)
              in if f1 (cmdline_tools h) \<noteq> None then
                   and_then (input []
                              (logger WARNING
                                 (cmdline_tools h @ '' already exists, overwrite? [y/N]'') s2))
                     (\<lambda>(answer, s3).
                        if lower answer = ''y'' then overwrite h name s3
                        else Inr (logger INFO
                                   ''Skipping Android command line tools installation'' s3))
                 else Inr s2))"

text \<open>Lines 287-297: refresh, look for \<open>sdkmanager.bat\<close>, leave with status 1 when absent.\<close>

definition verify_sdkmanager :: "host \<Rightarrow> state \<Rightarrow> state result" where
  "verify_sdkmanager h s =
     and_then (update_path h s) (\<lambda>s1.
       case which h (world s1) ''sdkmanager.bat'' (environ_path s1) of
         Some _ \<Rightarrow>
           Inr (logger INFO ''Android command line tools successfully installed''
                 (s1\<lparr>sdkmanager_path := which h (world s1) ''sdkmanager'' (environ_path s1)\<rparr>))
       | None \<Rightarrow> Inl (SysExit 1, logger ERROR android_manual_msg s1))"

definition commandlinetools_installer_url :: "string \<Rightarrow> string" where
  "commandlinetools_installer_url m = ''https://dl.google.com/android/repository/'' @ m"

definition android :: "host \<Rightarrow> state \<Rightarrow> state result" where
  "android h s =
     and_then (input android_prompt (s\<lparr>sdkmanager_path := Some ''sdkmanager''\<rparr>)) (\<lambda>(answer, s1).
       if lower answer = ''y'' then
         and_then (fetch h studio_url
                    (logger INFO ''Downloading Android command line tools...''
                      (logger INFO ''Attempting to install Android toolchain..'' s1))) (\<lambda>(page, s2).
           case commandlinetools_installer_re page of
             None \<Rightarrow> Inr s2
           | Some m \<Rightarrow>
               and_then (retrieve h (commandlinetools_installer_url m)
                          (installer_name (commandlinetools_installer_url m)) s2) (\<lambda>s3.
               and_then (extract_step h (installer_name (commandlinetools_installer_url m)) s3)
                 (\<lambda>s4.
               and_then (append_path h User android_bin
                          (logger INFO ''Attempting to update PATH...'' s4)) (\<lambda>s5.
                 verify_sdkmanager h s5))))
       else Inr (logger INFO ''Skipping Android toolchain installation'' s1))"

section \<open>The whole run (lines 96-304)\<close>

definition main :: "host \<Rightarrow> state \<Rightarrow> state result" where
  "main h s =
     and_then (ensure_git h s) (\<lambda>s1.
     and_then (ensure_flutter h s1) (\<lambda>s2.
     and_then (android h s2) (\<lambda>s3.
     and_then (input ''Press enter to exit...'' s3) (\<lambda>(line, s4). Inr s4))))"

text \<open>The state a run has reached, whether it goes on or has ended.\<close>

definition final :: "state result \<Rightarrow> state" where
  "final r = (case r of Inl (a, s) \<Rightarrow> s | Inr s \<Rightarrow> s)"

section \<open>A concrete host, to run the model on\<close>

text \<open>
  A Windows machine on which \<open>pwsh\<close> behaves as PowerShell does, \<open>winget\<close> fails, the Git
  installer installs Git into \<open>C:\Program Files\Git\cmd\<close> and adds that directory to the
  machine scope, and the clone fails.
\<close>

definition git_dir :: string where
  "git_dir = win [''C:'', ''Program Files'', ''Git'', ''cmd'']"

definition git_exe :: string where
  "git_exe = win [git_dir, ''git.EXE'']"

definition git_setup :: string where
  "git_setup = ''Git-2.40.0-64-bit.exe''"

definition git_asset :: string where
  "git_asset = ''/git-for-windows/git/releases/download/v2.40.0/'' @ git_setup"

definition put :: "string \<Rightarrow> node \<Rightarrow> world \<Rightarrow> world" where
  "put p n w = w\<lparr>fs := (fs w)(p \<mapsto> n)\<rparr>"

definition set_scope :: "scope \<Rightarrow> string \<Rightarrow> world \<Rightarrow> world" where
  "set_scope sc v w = w\<lparr>env_store := (env_store w)(sc := Some v)\<rparr>"

definition pc_spawn :: "bool \<Rightarrow> string list \<Rightarrow> world \<Rightarrow> proc \<times> world" where
  "pc_spawn elevated argv w =
     (if argv = update_path_argv then
        (case pwsh argv w of Some r \<Rightarrow> r | None \<Rightarrow> (NotStarted, w))
      else if argv = winget_argv then (Completed 1 [], w)
      else if argv = [git_setup] then
        (Completed 0 [],
         set_scope Machine (scope_value w Machine @ '';'' @ git_dir)
           (put git_exe (File ''MZ'') w))
      else if argv = set_path_argv User (scope_value w User @ '';'' @ android_bin) then
        ps_set_path True User (scope_value w User @ '';'' @ android_bin) w
      else if argv = set_path_argv Machine (scope_value w Machine @ '';'' @ flutter_bin) then
        ps_set_path elevated Machine (scope_value w Machine @ '';'' @ flutter_bin) w
      else if argv = clone_argv git_exe then (Completed 128 [], w)
      else (NotStarted, w))"

definition release_page :: string where
  "release_page = ''<a href='' @ git_asset @ '' rel=x>''"

definition zip_name :: string where
  "zip_name = ''commandlinetools-win-9477386_latest.zip''"

definition studio_page :: string where
  "studio_page = ''<button id='' @ zip_name @ ''>Download</button>''"

definition pc :: host where
  "pc = \<lparr>spawn = pc_spawn True,
         http_get = (\<lambda>url w. if url = git_release_url then Some release_page
                               else if url = studio_url then Some studio_page else None),
         urlretrieve = (\<lambda>url name w. Some (put name (File ''PK'') w)),
         read_zip = (\<lambda>content. Some [(''cmdline-tools'', Dir)]),
         pathext = [''.EXE'', ''.BAT''],
         localappdata = Some (win [''C:'', ''Users'', ''me''])\<rparr>"

text \<open>The same machine without administrator rights, and one whose pages have changed.\<close>

definition pc_user :: host where
  "pc_user = pc\<lparr>spawn := pc_spawn False\<rparr>"

definition moved_page :: string where
  "moved_page = ''<html>moved</html>''"

definition pc_moved :: host where
  "pc_moved = pc\<lparr>http_get := (\<lambda>url w. Some moved_page)\<rparr>"

text \<open>A machine whose \<open>pwsh\<close> prints a directory and then ends with status 1.\<close>

definition pc_noisy :: host where
  "pc_noisy = pc\<lparr>spawn := (\<lambda>argv w. (Completed 1 git_dir, w))\<rparr>"

text \<open>A machine whose \<open>pwsh\<close> prints nothing and ends with status 1.\<close>

definition pc_silent :: host where
  "pc_silent = pc\<lparr>spawn := (\<lambda>argv w. (Completed 1 [], w))\<rparr>"

text \<open>A machine without \<open>pwsh\<close>.\<close>

definition pc_nopwsh :: host where
  "pc_nopwsh = pc\<lparr>spawn := (\<lambda>argv w. (NotStarted, w))\<rparr>"

text \<open>A machine whose \<open>pwsh\<close> prints a directory with a NUL character after it.\<close>

definition pc_nul :: host where
  "pc_nul = pc\<lparr>spawn := (\<lambda>argv w. (Completed 0 (git_dir @ [CHR 0x00]), w))\<rparr>"

text \<open>What \<open>pwsh\<close> prints for the command of \<open>update_path\<close> in a world.\<close>

definition echoed :: "world \<Rightarrow> string" where
  "echoed w = (case pwsh update_path_argv w of Some (Completed rc out, w') \<Rightarrow> out | _ \<Rightarrow> [])"

text \<open>
  Worlds: nothing installed; Git and Flutter installed and the SDK directory present but
  empty; the platform tools installed as well.
\<close>

definition bare :: world where
  "bare = \<lparr>env_store = (\<lambda>sc. case sc of Machine \<Rightarrow> Some (win [''C:'', ''Windows''])
                                       | User \<Rightarrow> Some (win [''C:'', ''bin''])),
           fs = (\<lambda>p. None)\<rparr>"

text \<open>The bare machine once the Git installer has been downloaded and run.\<close>

definition bare_installed :: world where
  "bare_installed =
     set_scope Machine (win [''C:'', ''Windows''] @ '';'' @ git_dir)
       (put git_exe (File ''MZ'') (put git_setup (File ''PK'') bare))"

definition ready :: world where
  "ready =
     set_scope Machine (win [''C:'', ''Windows''] @ '';'' @ git_dir @ '';'' @ flutter_bin)
       (put git_exe (File ''MZ'')
         (put (win [flutter_bin, ''flutter.BAT'']) (File ''@echo'')
           (put (sdk_dir pc) Dir bare)))"

definition tools_bin :: string where
  "tools_bin = win [''C:'', ''tools'']"

definition full :: world where
  "full =
     set_scope Machine (scope_value ready Machine @ '';'' @ tools_bin)
       (put (win [tools_bin, ''sdkmanager.bat'']) (File ''@echo'') ready)"

text \<open>
  Git in a machine-scope directory and in the first of two user-scope directories; the same
  with a third copy in the current directory.
\<close>

definition twice :: world where
  "twice =
     set_scope User (win [''C:'', ''bin''] @ '';'' @ win [''C:'', ''Users'', ''me'', ''bin''])
       (put (win [''C:'', ''bin'', ''git.EXE'']) (File ''MZ'') ready)"

definition here :: world where
  "here = put (win [''.'', ''git.EXE'']) (File ''MZ'') twice"

text \<open>Git and Flutter installed, and an SDK directory that already holds \<open>cmdline-tools\<close>.\<close>

definition unpacked :: world where
  "unpacked =
     put (win [cmdline_tools pc, ''NOTICE.txt'']) (File ''keep'')
       (put (cmdline_tools pc) Dir ready)"

definition boot :: "world \<Rightarrow> string list \<Rightarrow> state" where
  "boot w answers =
     \<lparr>world = w, environ_path = [], stdin = answers, git_path = [], flutter_path = [],
      sdkmanager_path = None, trace = []\<rparr>"

text \<open>
  The states of a run on the machine with Git and Flutter, after each of the two has been
  found.
\<close>

definition after_git :: "string list \<Rightarrow> state" where
  "after_git answers =
     (boot ready answers)
       \<lparr>environ_path := echoed ready, git_path := git_exe,
         trace := [Log INFO ''Checking for Git...'', Spawn update_path_argv,
                   Log INFO ''Git found'']\<rparr>"

definition after_flutter :: "string list \<Rightarrow> state" where
  "after_flutter answers =
     (after_git answers)
       \<lparr>flutter_path := win [flutter_bin, ''flutter.BAT''],
         trace := trace (after_git answers) @
                  [Log INFO ''Checking for Flutter...'', Spawn update_path_argv,
                   Log INFO ''Flutter SDK is already installed, skipping...'']\<rparr>"

text \<open>The world of that run once the archive is downloaded and the user scope written.\<close>

definition ready_after :: world where
  "ready_after =
     set_scope User (win [''C:'', ''bin''] @ '';'' @ android_bin)
       (put zip_name (File ''PK'') ready)"

text \<open>
  A run on the fully equipped machine that has just refreshed its \<open>PATH\<close>, with a user who
  will answer \<open>y\<close>.
\<close>

definition fresh :: state where
  "fresh = final (update_path pc (boot full [''y'']))"

section \<open>Auxiliary facts\<close>

lemma split_on_not_Nil: "split_on c xs \<noteq> []"
  by (induction xs) (auto split: list.splits)

lemma split_on_append: "split_on c (xs @ c # ys) = split_on c xs @ split_on c ys"
proof (induction xs)
  case Nil
  show ?case by simp
next
  case (Cons x xs)
  obtain y ys' where "split_on c xs = y # ys'"
    using split_on_not_Nil [of c xs] by (cases "split_on c xs") auto
  with Cons show ?case by simp
qed

lemma split_on_absent: "c \<notin> set e \<Longrightarrow> split_on c e = [e]"
  by (induction e) auto



lemma find_file_append:
  "find_file w (a @ b) fl =
     (case find_file w a fl of Some p \<Rightarrow> Some p | None \<Rightarrow> find_file w b fl)"
  by (induction a) (auto split: option.splits)

lemma run_completed:
  "spawn h argv (world s) = (Completed rc out, w') \<Longrightarrow>
   run h argv s = Inr (rc, out, (emit (Spawn argv) s)\<lparr>world := w'\<rparr>)"
  by (simp add: run_def)

lemma update_path_completed:
  "spawn h update_path_argv (world s) = (Completed rc out, w') \<Longrightarrow> utf8_ok out \<Longrightarrow>
   putenv_ok out \<Longrightarrow>
   update_path h s = Inr ((emit (Spawn update_path_argv) s)\<lparr>world := w', environ_path := out\<rparr>)"
  by (simp add: update_path_def run_completed)

lemma ps_command_update_path:
  "ps_command (update_path_argv ! 2) = Some (Plus (Plus (GetPath Machine) (Str '';'')) (GetPath User))"
  by (simp add: update_path_argv_def ps_command_def ps_operand_def ps_quoted_def
        ps_target_def strip_prefix_def skip_spaces_def startswith_def)

lemma pwsh_update_path:
  "pwsh update_path_argv w =
     Some (Completed 0 (scope_value w Machine @ '';'' @ scope_value w User @ eol), w)"
  using ps_command_update_path by (simp add: pwsh_def update_path_argv_def)

lemma echoed_eq: "echoed w = scope_value w Machine @ '';'' @ scope_value w User @ eol"
  by (simp add: echoed_def pwsh_update_path)

lemma dirname_tools:
  "dirname ''git'' = []" "dirname ''flutter'' = []"
  "dirname ''sdkmanager'' = []" "dirname ''sdkmanager.bat'' = []"
  by (simp_all add: dirname_def splitdrive_def is_sep_def cp_len_def bs_def)

lemma which_machine_first:
  assumes "find_file w (split_on CHR '';'' m) (files_for (pathext h) cmd) = Some p"
      and "find_file w [''.''] (files_for (pathext h) cmd) = None"
      and "dirname cmd = []"
  shows "which h w cmd (m @ '';'' @ u) = Some p"
proof -
  let ?fl = "files_for (pathext h) cmd"
  have sp: "split_on CHR '';'' (m @ '';'' @ u) = split_on CHR '';'' m @ split_on CHR '';'' u"
    using split_on_append [of "CHR '';''" m u] by simp
  have a: "find_file w (split_on CHR '';'' (m @ '';'' @ u)) ?fl = Some p"
    unfolding sp by (simp add: find_file_append assms(1))
  have b: "find_file w (''.'' # split_on CHR '';'' (m @ '';'' @ u)) ?fl = Some p"
    using find_file_append [of w "[''.'']" "split_on CHR '';'' (m @ '';'' @ u)" ?fl] a assms(2)
    by simp
  show ?thesis
    using a b assms(3) by (simp add: which_def search_dirs_def Let_def)
qed


lemmas eval_defs = and_then_def update_path_def run_def input_def fetch_def retrieve_def
  logger_def emit_def which_def search_dirs_def files_for_def endswith_def lower_def
  lower_char_def access_def path_join_def utf8_ok_def cont_def ps_set_path_def
  eol_def scope_value_def bs_def final_def exit_status_def startswith_def
  putenv_ok_def splitdrive_def is_sep_def cp_len_def dirname_def Let_def

lemmas pc_defs = pc_def pc_user_def pc_moved_def pc_noisy_def pc_silent_def pc_nopwsh_def
  pc_spawn_def
  git_dir_def tools_bin_def put_def set_scope_def bare_def ready_def full_def twice_def
  boot_def flutter_bin_def android_bin_def update_path_argv_def winget_argv_def echoed_eq
  here_def pc_nul_def
  unpacked_def sdk_dir_def cmdline_tools_def
  set_path_argv_def clone_argv_def scope_name_def release_page_def studio_page_def
  zip_name_def git_exe_def moved_page_def git_setup_def git_asset_def bare_installed_def
  git_release_url_def studio_url_def

subsection \<open>Single steps\<close>

lemma input_line:
  "stdin s = a # rest \<Longrightarrow> input p s = Inr (a, (emit (Input p) s)\<lparr>stdin := rest\<rparr>)"
  by (simp add: input_def)

lemma fetch_page:
  "http_get h url (world s) = Some page \<Longrightarrow> fetch h url s = Inr (page, emit (HttpGet url) s)"
  by (simp add: fetch_def)

lemma retrieve_done:
  "urlretrieve h url name (world s) = Some w' \<Longrightarrow>
   retrieve h url name s = Inr ((emit (Download url name) s)\<lparr>world := w'\<rparr>)"
  by (simp add: retrieve_def)

lemma append_path_completed:
  assumes "env_store (world s) sc = Some v"
      and "spawn h (set_path_argv sc (v @ '';'' @ dir)) (world s) = (Completed rc out, w')"
  shows "append_path h sc dir s =
           Inr (s\<lparr>world := w',
                  trace := trace s @ [Spawn (set_path_argv sc (v @ '';'' @ dir)),
                                      if rc = 0 then Log INFO ''Updated PATH''
                                      else Log WARNING path_failure_msg]\<rparr>)"
  using assms by (simp add: append_path_def and_then_def run_def logger_def emit_def)

subsection \<open>Paths through the flows\<close>

lemma ensure_git_present:
  assumes "spawn h update_path_argv (world s) = (Completed rc out, w')"
      and "utf8_ok out"
      and "putenv_ok out"
      and "which h w' ''git'' out = Some p"
  shows "ensure_git h s =
           Inr (s\<lparr>world := w', environ_path := out, git_path := p,
                  trace := trace s @ [Log INFO ''Checking for Git...'', Spawn update_path_argv,
                                      Log INFO ''Git found'']\<rparr>)"
proof -
  let ?s0 = "(logger INFO ''Checking for Git...'' s)\<lparr>git_path := ''git''\<rparr>"
  have "spawn h update_path_argv (world ?s0) = (Completed rc out, w')"
    using assms(1) by (simp add: logger_def emit_def)
  from update_path_completed [OF this assms(2,3)]
  show ?thesis
    using assms(4) by (simp add: ensure_git_def and_then_def logger_def emit_def)
qed

lemma ensure_flutter_present:
  assumes "spawn h update_path_argv (world s) = (Completed rc out, w')"
      and "utf8_ok out"
      and "putenv_ok out"
      and "which h w' ''flutter'' out = Some p"
  shows "ensure_flutter h s =
           Inr (s\<lparr>world := w', environ_path := out, flutter_path := p,
                  trace := trace s @ [Log INFO ''Checking for Flutter...'', Spawn update_path_argv,
                                      Log INFO ''Flutter SDK is already installed, skipping...'']\<rparr>)"
proof -
  let ?s0 = "(logger INFO ''Checking for Flutter...'' s)\<lparr>flutter_path := ''flutter''\<rparr>"
  have "spawn h update_path_argv (world ?s0) = (Completed rc out, w')"
    using assms(1) by (simp add: logger_def emit_def)
  from update_path_completed [OF this assms(2,3)]
  show ?thesis
    using assms(4) by (simp add: ensure_flutter_def and_then_def logger_def emit_def)
qed

lemma verify_sdkmanager_absent:
  assumes "spawn h update_path_argv (world s) = (Completed rc out, w')"
      and "utf8_ok out"
      and "putenv_ok out"
      and "which h w' ''sdkmanager.bat'' out = None"
  shows "verify_sdkmanager h s =
           Inl (SysExit 1,
                s\<lparr>world := w', environ_path := out,
                  trace := trace s @ [Spawn update_path_argv, Log ERROR android_manual_msg]\<rparr>)"
  using assms(4) update_path_completed [OF assms(1,2,3)]
  by (simp add: verify_sdkmanager_def and_then_def logger_def emit_def)

lemma verify_sdkmanager_present:
  assumes "spawn h update_path_argv (world s) = (Completed rc out, w')"
      and "utf8_ok out"
      and "putenv_ok out"
      and "which h w' ''sdkmanager.bat'' out = Some p"
  shows "verify_sdkmanager h s =
           Inr (s\<lparr>world := w', environ_path := out,
                  sdkmanager_path := which h w' ''sdkmanager'' out,
                  trace := trace s @ [Spawn update_path_argv,
                    Log INFO ''Android command line tools successfully installed'']\<rparr>)"
  using assms(4) update_path_completed [OF assms(1,2,3)]
  by (simp add: verify_sdkmanager_def and_then_def logger_def emit_def)

lemma android_opted_in:
  assumes "stdin s = a # rest"
      and "lower a = ''y''"
      and "http_get h studio_url (world s) = Some page"
  shows "android h s =
           (case commandlinetools_installer_re page of
              None \<Rightarrow>
                Inr (s\<lparr>sdkmanager_path := Some ''sdkmanager'', stdin := rest,
                       trace := trace s @ [Input android_prompt,
                         Log INFO ''Attempting to install Android toolchain..'',
                         Log INFO ''Downloading Android command line tools...'',
                         HttpGet studio_url]\<rparr>)
            | Some m \<Rightarrow>
                and_then (retrieve h (commandlinetools_installer_url m)
                           (installer_name (commandlinetools_installer_url m))
                           (s\<lparr>sdkmanager_path := Some ''sdkmanager'', stdin := rest,
                              trace := trace s @ [Input android_prompt,
                                Log INFO ''Attempting to install Android toolchain..'',
                                Log INFO ''Downloading Android command line tools...'',
                                HttpGet studio_url]\<rparr>)) (\<lambda>s3.
                and_then (extract_step h (installer_name (commandlinetools_installer_url m)) s3)
                  (\<lambda>s4.
                and_then (append_path h User android_bin
                           (logger INFO ''Attempting to update PATH...'' s4)) (\<lambda>s5.
                  verify_sdkmanager h s5))))"
  using assms
  by (simp add: android_def and_then_def input_def fetch_def logger_def emit_def
           split: option.splits)

lemma android_declined:
  assumes "stdin s = a # rest"
      and "lower a \<noteq> ''y''"
  shows "android h s =
           Inr (s\<lparr>sdkmanager_path := Some ''sdkmanager'', stdin := rest,
                  trace := trace s @ [Input android_prompt,
                    Log INFO ''Skipping Android toolchain installation'']\<rparr>)"
  using assms by (simp add: android_def and_then_def input_def logger_def emit_def)

lemma extract_step_fresh:
  assumes "mkdir_parents (sdk_dir h) (fs (world s)) = Some f1"
      and "f1 (cmdline_tools h) = None"
  shows "extract_step h name s =
           Inr (s\<lparr>world := (world s)\<lparr>fs := f1\<rparr>,
                  trace := trace s @
                    [Log INFO (''Downloaded Android command line tools, attempting to unzip to ''
                               @ sdk_dir h),
                     Log DEBUG (''Creating '' @ sdk_dir h @ '' if not exists''),
                     Log DEBUG (''Unzipping '' @ name @ '' to '' @ sdk_dir h)]\<rparr>)"
  using assms by (simp add: extract_step_def Let_def logger_def emit_def set_fs_def)

lemma extract_step_declined:
  assumes "mkdir_parents (sdk_dir h) (fs (world s)) = Some f1"
      and "f1 (cmdline_tools h) \<noteq> None"
      and "stdin s = a # rest"
      and "lower a \<noteq> ''y''"
  shows "extract_step h name s =
           Inr (s\<lparr>world := (world s)\<lparr>fs := f1\<rparr>, stdin := rest,
                  trace := trace s @
                    [Log INFO (''Downloaded Android command line tools, attempting to unzip to ''
                               @ sdk_dir h),
                     Log DEBUG (''Creating '' @ sdk_dir h @ '' if not exists''),
                     Log DEBUG (''Unzipping '' @ name @ '' to '' @ sdk_dir h),
                     Log WARNING (cmdline_tools h @ '' already exists, overwrite? [y/N]''),
                     Input [],
                     Log INFO ''Skipping Android command line tools installation'']\<rparr>)"
  using assms
  by (auto simp add: extract_step_def Let_def logger_def emit_def set_fs_def and_then_def input_def)

lemma main_after_tools:
  assumes "ensure_git h s = Inr s1"
      and "ensure_flutter h s1 = Inr s2"
  shows "main h s =
           and_then (android h s2) (\<lambda>s3.
           and_then (input ''Press enter to exit...'' s3) (\<lambda>(line, s4). Inr s4))"
  using assms by (simp add: main_def and_then_def)

subsection \<open>The concrete host, evaluated\<close>

lemma pc_echo: "pc_spawn e update_path_argv w = (Completed 0 (echoed w), w)"
  by (simp add: pc_spawn_def pwsh_update_path echoed_eq)

lemma pc_studio_asset: "commandlinetools_installer_re studio_page = Some zip_name"
  by (simp add: commandlinetools_installer_re_def match_at_def startswith_def cp_len_def
        studio_page_def zip_name_def)

lemma pc_zip_name: "installer_name (commandlinetools_installer_url zip_name) = zip_name"
  by (simp add: installer_name_def commandlinetools_installer_url_def zip_name_def)

lemma android_to_verification:
  assumes "stdin s = a # rest"
      and "lower a = ''y''"
      and "http_get h studio_url (world s) = Some page"
      and "commandlinetools_installer_re page = Some m"
      and "retrieve h (commandlinetools_installer_url m)
             (installer_name (commandlinetools_installer_url m))
             (s\<lparr>sdkmanager_path := Some ''sdkmanager'', stdin := rest,
                trace := trace s @ [Input android_prompt,
                  Log INFO ''Attempting to install Android toolchain..'',
                  Log INFO ''Downloading Android command line tools...'',
                  HttpGet studio_url]\<rparr>) = Inr s3"
      and "extract_step h (installer_name (commandlinetools_installer_url m)) s3 = Inr s4"
      and "append_path h User android_bin (logger INFO ''Attempting to update PATH...'' s4)
             = Inr s5"
  shows "android h s = verify_sdkmanager h s5"
  by (simp add: android_opted_in [OF assms(1,2,3)] assms(4,5,6,7) and_then_def)

lemma pc_android_steps:
  assumes "stdin s = a # rest"
      and "lower a = ''y''"
      and "env_store (world s) User = Some (win [''C:'', ''bin''])"
      and "fs (world s) (sdk_dir pc) = Some Dir"
      and "fs (world s) (cmdline_tools pc) = None"
  shows "\<exists>s3 s4.
           retrieve pc (commandlinetools_installer_url zip_name)
             (installer_name (commandlinetools_installer_url zip_name))
             (s\<lparr>sdkmanager_path := Some ''sdkmanager'', stdin := rest,
                trace := trace s @ [Input android_prompt,
                  Log INFO ''Attempting to install Android toolchain..'',
                  Log INFO ''Downloading Android command line tools...'',
                  HttpGet studio_url]\<rparr>) = Inr s3
           \<and> extract_step pc (installer_name (commandlinetools_installer_url zip_name)) s3
               = Inr s4
           \<and> append_path pc User android_bin (logger INFO ''Attempting to update PATH...'' s4)
               = Inr (s\<lparr>world := set_scope User (win [''C:'', ''bin''] @ '';'' @ android_bin)
                            (put zip_name (File ''PK'') (world s)),
                stdin := rest, sdkmanager_path := Some ''sdkmanager'',
                trace := trace s @
                  [Input android_prompt,
                   Log INFO ''Attempting to install Android toolchain..'',
                   Log INFO ''Downloading Android command line tools...'',
                   HttpGet studio_url,
                   Download (commandlinetools_installer_url zip_name) zip_name,
                   Log INFO (''Downloaded Android command line tools, attempting to unzip to ''
                             @ sdk_dir pc),
                   Log DEBUG (''Creating '' @ sdk_dir pc @ '' if not exists''),
                   Log DEBUG (''Unzipping '' @ zip_name @ '' to '' @ sdk_dir pc),
                   Log INFO ''Attempting to update PATH...'',
                   Spawn (set_path_argv User (win [''C:'', ''bin''] @ '';'' @ android_bin)),
                   Log INFO ''Updated PATH'']\<rparr>)"
proof -
  define w1 where "w1 = put zip_name (File ''PK'') (world s)"
  define w2 where "w2 = set_scope User (win [''C:'', ''bin''] @ '';'' @ android_bin) w1"
  define s2 where "s2 = s\<lparr>sdkmanager_path := Some ''sdkmanager'', stdin := rest,
                trace := trace s @ [Input android_prompt,
                  Log INFO ''Attempting to install Android toolchain..'',
                  Log INFO ''Downloading Android command line tools...'',
                  HttpGet studio_url]\<rparr>"
  define s3 where "s3 = (emit (Download (commandlinetools_installer_url zip_name) zip_name) s2)
               \<lparr>world := w1\<rparr>"
  define s4 where "s4 = s3\<lparr>world := (world s3)\<lparr>fs := fs w1\<rparr>,
                  trace := trace s3 @
                    [Log INFO (''Downloaded Android command line tools, attempting to unzip to ''
                               @ sdk_dir pc),
                     Log DEBUG (''Creating '' @ sdk_dir pc @ '' if not exists''),
                     Log DEBUG (''Unzipping '' @ zip_name @ '' to '' @ sdk_dir pc)]\<rparr>"
  define s4' where "s4' = logger INFO ''Attempting to update PATH...'' s4"
  define s5 where "s5 = s4'\<lparr>world := w2,
                  trace := trace s4' @
                    [Spawn (set_path_argv User (win [''C:'', ''bin''] @ '';'' @ android_bin)),
                     if (0::int) = 0 then Log INFO ''Updated PATH''
                     else Log WARNING path_failure_msg]\<rparr>"
  have dl: "retrieve pc (commandlinetools_installer_url zip_name) zip_name s2 = Inr s3"
    unfolding s3_def w1_def
    by (rule retrieve_done) (simp add: pc_def s2_def)
  have k1: "zip_name \<noteq> sdk_dir pc" "zip_name \<noteq> cmdline_tools pc"
    by (simp_all add: zip_name_def sdk_dir_def cmdline_tools_def pc_def)
  have w3: "world s3 = w1"
    by (simp add: s3_def)
  have mk: "mkdir_parents (sdk_dir pc) (fs (world s3)) = Some (fs w1)"
    using assms(4) k1 by (simp add: w3 w1_def mkdir_parents_def put_def)
  have none: "fs w1 (cmdline_tools pc) = None"
    using assms(5) k1 by (simp add: w1_def put_def)
  have ex: "extract_step pc zip_name s3 = Inr s4"
    unfolding s4_def by (rule extract_step_fresh [OF mk none])
  have w4: "world s4' = w1"
    by (simp add: s4'_def s4_def w3 logger_def emit_def)
  have u: "env_store (world s4') User = Some (win [''C:'', ''bin''])"
    using assms(3) by (simp add: w4 w1_def put_def)
  have sp: "spawn pc (set_path_argv User (win [''C:'', ''bin''] @ '';'' @ android_bin)) (world s4')
         = (Completed 0 [], w2)"
    using u unfolding w4 w2_def
    by (simp add: pc_def pc_spawn_def scope_value_def ps_set_path_def set_scope_def
          set_path_argv_def update_path_argv_def winget_argv_def)
  have ap: "append_path pc User android_bin s4' = Inr s5"
    unfolding s5_def by (rule append_path_completed [OF u sp])
  have fin: "s5 = s\<lparr>world := set_scope User (win [''C:'', ''bin''] @ '';'' @ android_bin)
                            (put zip_name (File ''PK'') (world s)),
                stdin := rest, sdkmanager_path := Some ''sdkmanager'',
                trace := trace s @
                  [Input android_prompt,
                   Log INFO ''Attempting to install Android toolchain..'',
                   Log INFO ''Downloading Android command line tools...'',
                   HttpGet studio_url,
                   Download (commandlinetools_installer_url zip_name) zip_name,
                   Log INFO (''Downloaded Android command line tools, attempting to unzip to ''
                             @ sdk_dir pc),
                   Log DEBUG (''Creating '' @ sdk_dir pc @ '' if not exists''),
                   Log DEBUG (''Unzipping '' @ zip_name @ '' to '' @ sdk_dir pc),
                   Log INFO ''Attempting to update PATH...'',
                   Spawn (set_path_argv User (win [''C:'', ''bin''] @ '';'' @ android_bin)),
                   Log INFO ''Updated PATH'']\<rparr>"
    by (simp add: s5_def s4'_def s4_def s3_def s2_def w2_def w1_def logger_def emit_def)
  show ?thesis
    using dl ex ap unfolding s4'_def fin s2_def pc_zip_name by blast
qed

lemma pc_android:
  assumes "stdin s = a # rest"
      and "lower a = ''y''"
      and "env_store (world s) User = Some (win [''C:'', ''bin''])"
      and "fs (world s) (sdk_dir pc) = Some Dir"
      and "fs (world s) (cmdline_tools pc) = None"
  shows "android pc s =
           verify_sdkmanager pc
             (s\<lparr>world := set_scope User (win [''C:'', ''bin''] @ '';'' @ android_bin)
                            (put zip_name (File ''PK'') (world s)),
                stdin := rest, sdkmanager_path := Some ''sdkmanager'',
                trace := trace s @
                  [Input android_prompt,
                   Log INFO ''Attempting to install Android toolchain..'',
                   Log INFO ''Downloading Android command line tools...'',
                   HttpGet studio_url,
                   Download (commandlinetools_installer_url zip_name) zip_name,
                   Log INFO (''Downloaded Android command line tools, attempting to unzip to ''
                             @ sdk_dir pc),
                   Log DEBUG (''Creating '' @ sdk_dir pc @ '' if not exists''),
                   Log DEBUG (''Unzipping '' @ zip_name @ '' to '' @ sdk_dir pc),
                   Log INFO ''Attempting to update PATH...'',
                   Spawn (set_path_argv User (win [''C:'', ''bin''] @ '';'' @ android_bin)),
                   Log INFO ''Updated PATH'']\<rparr>)"
proof -
  have page: "http_get pc studio_url (world s) = Some studio_page"
    by (simp add: pc_def studio_url_def git_release_url_def)
  from pc_android_steps [OF assms] obtain s3 s4 where
    "retrieve pc (commandlinetools_installer_url zip_name)
             (installer_name (commandlinetools_installer_url zip_name))
             (s\<lparr>sdkmanager_path := Some ''sdkmanager'', stdin := rest,
                trace := trace s @ [Input android_prompt,
                  Log INFO ''Attempting to install Android toolchain..'',
                  Log INFO ''Downloading Android command line tools...'',
                  HttpGet studio_url]\<rparr>) = Inr s3"
    and "extract_step pc (installer_name (commandlinetools_installer_url zip_name)) s3 = Inr s4"
    and "append_path pc User android_bin (logger INFO ''Attempting to update PATH...'' s4)
           = Inr (s\<lparr>world := set_scope User (win [''C:'', ''bin''] @ '';'' @ android_bin)
                            (put zip_name (File ''PK'') (world s)),
                stdin := rest, sdkmanager_path := Some ''sdkmanager'',
                trace := trace s @
                  [Input android_prompt,
                   Log INFO ''Attempting to install Android toolchain..'',
                   Log INFO ''Downloading Android command line tools...'',
                   HttpGet studio_url,
                   Download (commandlinetools_installer_url zip_name) zip_name,
                   Log INFO (''Downloaded Android command line tools, attempting to unzip to ''
                             @ sdk_dir pc),
                   Log DEBUG (''Creating '' @ sdk_dir pc @ '' if not exists''),
                   Log DEBUG (''Unzipping '' @ zip_name @ '' to '' @ sdk_dir pc),
                   Log INFO ''Attempting to update PATH...'',
                   Spawn (set_path_argv User (win [''C:'', ''bin''] @ '';'' @ android_bin)),
                   Log INFO ''Updated PATH'']\<rparr>)"
    by blast
  then show ?thesis
    by (rule android_to_verification [OF assms(1,2) page pc_studio_asset])
qed

lemma pc_ready_facts:
  "env_store ready User = Some (win [''C:'', ''bin''])"
  "fs ready (sdk_dir pc) = Some Dir"
  "fs ready (cmdline_tools pc) = None"
  by (simp_all add: pc_defs bs_def)

lemma pc_full_facts:
  "env_store full User = Some (win [''C:'', ''bin''])"
  "fs full (sdk_dir pc) = Some Dir"
  "fs full (cmdline_tools pc) = None"
  by (simp_all add: pc_defs bs_def scope_value_def)

lemma pc_ready_tools:
  "utf8_ok (echoed ready)"
  "which pc ready ''git'' (echoed ready) = Some git_exe"
  "which pc ready ''flutter'' (echoed ready) = Some (win [flutter_bin, ''flutter.BAT''])"
  "putenv_ok (echoed ready)"
  by (simp_all add: eval_defs pc_defs)

lemma pc_ready_after:
  "utf8_ok (echoed (set_scope User (win [''C:'', ''bin''] @ '';'' @ android_bin)
                     (put zip_name (File ''PK'') ready)))"
  "which pc (set_scope User (win [''C:'', ''bin''] @ '';'' @ android_bin)
              (put zip_name (File ''PK'') ready)) ''sdkmanager.bat''
     (echoed (set_scope User (win [''C:'', ''bin''] @ '';'' @ android_bin)
               (put zip_name (File ''PK'') ready))) = None"
  "putenv_ok (echoed (set_scope User (win [''C:'', ''bin''] @ '';'' @ android_bin)
                       (put zip_name (File ''PK'') ready)))"
  by (simp_all add: eval_defs pc_defs)

lemma pc_full_tools:
  "utf8_ok (echoed full)"
  "which pc full ''sdkmanager.bat'' (echoed full) = Some (win [tools_bin, ''sdkmanager.bat''])"
  "putenv_ok (echoed full)"
  by (simp_all add: eval_defs pc_defs)

lemma pc_full_after:
  "utf8_ok (echoed (set_scope User (win [''C:'', ''bin''] @ '';'' @ android_bin)
                     (put zip_name (File ''PK'') full)))"
  "which pc (set_scope User (win [''C:'', ''bin''] @ '';'' @ android_bin)
              (put zip_name (File ''PK'') full)) ''sdkmanager.bat''
     (echoed (set_scope User (win [''C:'', ''bin''] @ '';'' @ android_bin)
               (put zip_name (File ''PK'') full)))
     = Some (win [tools_bin, ''sdkmanager.bat''])"
  "putenv_ok (echoed (set_scope User (win [''C:'', ''bin''] @ '';'' @ android_bin)
                       (put zip_name (File ''PK'') full)))"
  by (simp_all add: eval_defs pc_defs)

lemma pc_refresh: "spawn pc update_path_argv w = (Completed 0 (echoed w), w)"
  by (simp add: pc_def pc_echo)

lemma pc_fresh:
  "fresh = (boot full [''y''])\<lparr>environ_path := echoed full, trace := [Spawn update_path_argv]\<rparr>"
  using update_path_completed [of pc "boot full [''y'']" 0 "echoed full" full]
    pc_full_tools(1) pc_full_tools(3)
  by (simp add: fresh_def final_def pc_refresh boot_def emit_def)

lemma pc_ready_run:
  "ensure_git pc (boot ready answers) = Inr (after_git answers)"
  "ensure_flutter pc (after_git answers) = Inr (after_flutter answers)"
proof -
  have r: "spawn pc update_path_argv (world (boot ready answers))
             = (Completed 0 (echoed ready), ready)"
    by (simp add: pc_refresh boot_def)
  show "ensure_git pc (boot ready answers) = Inr (after_git answers)"
    unfolding ensure_git_present [OF r pc_ready_tools(1) pc_ready_tools(4) pc_ready_tools(2)]
    by (simp add: after_git_def boot_def)
  have r': "spawn pc update_path_argv (world (after_git answers))
             = (Completed 0 (echoed ready), ready)"
    by (simp add: pc_refresh after_git_def boot_def)
  show "ensure_flutter pc (after_git answers) = Inr (after_flutter answers)"
    unfolding ensure_flutter_present [OF r' pc_ready_tools(1) pc_ready_tools(4) pc_ready_tools(3)]
    by (simp add: after_flutter_def after_git_def boot_def)
qed

lemma after_flutter_facts:
  "world (after_flutter answers) = ready"
  "stdin (after_flutter answers) = answers"
  by (simp_all add: after_flutter_def after_git_def boot_def)

lemma lower_y: "lower ''y'' = ''y''"
  by (simp add: lower_def lower_char_def)

lemma git_manual_not_found:
  assumes "http_get h git_release_url (world s) = Some page"
      and "git_installer_re page = None"
  shows "git_manual h s =
           Inl (SysExit 1,
                s\<lparr>trace := trace s @ [HttpGet git_release_url, Log ERROR git_manual_msg]\<rparr>)"
  by (simp add: git_manual_def fetch_page [OF assms(1)] and_then_def assms(2) logger_def emit_def)

lemma pc_ready_optin:
  "main pc (boot ready [''y'']) =
     Inl (SysExit 1,
          (after_flutter [''y''])
            \<lparr>world := ready_after, environ_path := echoed ready_after, stdin := [],
              sdkmanager_path := Some ''sdkmanager'',
              trace := trace (after_flutter [''y'']) @
                [Input android_prompt,
                 Log INFO ''Attempting to install Android toolchain..'',
                 Log INFO ''Downloading Android command line tools...'',
                 HttpGet studio_url,
                 Download (commandlinetools_installer_url zip_name) zip_name,
                 Log INFO (''Downloaded Android command line tools, attempting to unzip to ''
                           @ sdk_dir pc),
                 Log DEBUG (''Creating '' @ sdk_dir pc @ '' if not exists''),
                 Log DEBUG (''Unzipping '' @ zip_name @ '' to '' @ sdk_dir pc),
                 Log INFO ''Attempting to update PATH...'',
                 Spawn (set_path_argv User (win [''C:'', ''bin''] @ '';'' @ android_bin)),
                 Log INFO ''Updated PATH'',
                 Spawn update_path_argv,
                 Log ERROR android_manual_msg]\<rparr>)"
proof -
  define s5 where "s5 = (after_flutter [''y''])\<lparr>world := ready_after,
                stdin := [], sdkmanager_path := Some ''sdkmanager'',
                trace := trace (after_flutter [''y'']) @
                  [Input android_prompt,
                   Log INFO ''Attempting to install Android toolchain..'',
                   Log INFO ''Downloading Android command line tools...'',
                   HttpGet studio_url,
                   Download (commandlinetools_installer_url zip_name) zip_name,
                   Log INFO (''Downloaded Android command line tools, attempting to unzip to ''
                             @ sdk_dir pc),
                   Log DEBUG (''Creating '' @ sdk_dir pc @ '' if not exists''),
                   Log DEBUG (''Unzipping '' @ zip_name @ '' to '' @ sdk_dir pc),
                   Log INFO ''Attempting to update PATH...'',
                   Spawn (set_path_argv User (win [''C:'', ''bin''] @ '';'' @ android_bin)),
                   Log INFO ''Updated PATH'']\<rparr>"
  have a: "android pc (after_flutter [''y'']) = verify_sdkmanager pc s5"
    unfolding s5_def ready_after_def
    by (rule pc_android [of "after_flutter [''y'']" "''y''" "[]",
          unfolded after_flutter_facts, OF refl lower_y pc_ready_facts])
  have r: "spawn pc update_path_argv (world s5) = (Completed 0 (echoed ready_after), ready_after)"
    by (simp add: s5_def pc_refresh)
  have u: "utf8_ok (echoed ready_after)"
    and n: "which pc ready_after ''sdkmanager.bat'' (echoed ready_after) = None"
    and v: "putenv_ok (echoed ready_after)"
    using pc_ready_after by (simp_all only: ready_after_def)
  show ?thesis
    unfolding main_after_tools [OF pc_ready_run] a verify_sdkmanager_absent [OF r u v n]
    by (simp add: and_then_def s5_def)
qed

lemma pc_git_asset:
  "git_installer_re release_page = Some git_asset"
  "installer_name (git_installer_url git_asset) = git_setup"
  by (simp_all add: git_installer_re_def match_at_def startswith_def release_page_def
        git_asset_def git_setup_def installer_name_def git_installer_url_def)

lemma pc_bare_tools:
  "utf8_ok (echoed bare)"
  "which pc bare ''git'' (echoed bare) = None"
  "utf8_ok (echoed bare_installed)"
  "which pc bare_installed ''git'' (echoed bare_installed) = Some git_exe"
  "putenv_ok (echoed bare)"
  "putenv_ok (echoed bare_installed)"
  by (simp_all add: eval_defs pc_defs)

lemma pc_bare_install:
  "spawn pc winget_argv bare = (Completed 1 [], bare)"
  "http_get pc git_release_url bare = Some release_page"
  "urlretrieve pc (git_installer_url git_asset) git_setup bare
     = Some (put git_setup (File ''PK'') bare)"
  "spawn pc [git_setup] (put git_setup (File ''PK'') bare) = (Completed 0 [], bare_installed)"
proof -
  have sv: "scope_value (put git_setup (File ''PK'') bare) Machine = win [''C:'', ''Windows'']"
    by (simp add: scope_value_def put_def bare_def)
  show "spawn pc winget_argv bare = (Completed 1 [], bare)"
    by (simp add: pc_def pc_spawn_def update_path_argv_def winget_argv_def)
  show "http_get pc git_release_url bare = Some release_page"
    by (simp add: pc_def)
  show "urlretrieve pc (git_installer_url git_asset) git_setup bare
     = Some (put git_setup (File ''PK'') bare)"
    by (simp add: pc_def)
  show "spawn pc [git_setup] (put git_setup (File ''PK'') bare) = (Completed 0 [], bare_installed)"
    unfolding bare_installed_def sv [symmetric]
    by (simp add: pc_def pc_spawn_def update_path_argv_def winget_argv_def)
qed

lemma boot_world: "world (boot w answers) = w"
  by (simp add: boot_def)

lemma pc_bare_scopes:
  "scope_value bare Machine = win [''C:'', ''Windows'']"
  "scope_value bare User = win [''C:'', ''bin'']"
  "scope_value (set_scope Machine v bare) Machine = v"
  "scope_value (set_scope Machine v bare) User = win [''C:'', ''bin'']"
  by (simp_all add: scope_value_def bare_def set_scope_def)

lemma pc_set_machine:
  "spawn pc (set_path_argv Machine (win [''C:'', ''Windows''] @ '';'' @ flutter_bin)) bare
     = ps_set_path True Machine (win [''C:'', ''Windows''] @ '';'' @ flutter_bin) bare"
  "spawn pc_user (set_path_argv Machine (win [''C:'', ''Windows''] @ '';'' @ flutter_bin)) bare
     = (Completed 1 [], bare)"
  "spawn pc (set_path_argv Machine
       ((win [''C:'', ''Windows''] @ '';'' @ flutter_bin) @ '';'' @ flutter_bin))
     (set_scope Machine (win [''C:'', ''Windows''] @ '';'' @ flutter_bin) bare)
     = ps_set_path True Machine
         ((win [''C:'', ''Windows''] @ '';'' @ flutter_bin) @ '';'' @ flutter_bin)
         (set_scope Machine (win [''C:'', ''Windows''] @ '';'' @ flutter_bin) bare)"
  by (simp_all add: pc_def pc_user_def pc_spawn_def pc_bare_scopes ps_set_path_def
        set_path_argv_def update_path_argv_def winget_argv_def git_setup_def
        flutter_bin_def android_bin_def bs_def scope_name_def)

lemma flutter_bin_plain: "CHR '';'' \<notin> set flutter_bin"
  by (simp add: flutter_bin_def bs_def)

lemma pc_unpacked_facts:
  "fs unpacked (sdk_dir pc) = Some Dir"
  "fs unpacked (cmdline_tools pc) = Some Dir"
  "fs unpacked (win [cmdline_tools pc, ''NOTICE.txt'']) = Some (File ''keep'')"
  by (simp_all add: pc_defs bs_def)

lemma pc_sdk_ancestors:
  "ancestors (sdk_dir pc) = [win [''C:'', ''Users''], win [''C:'', ''Users'', ''me''],
                             win [''C:'', ''Users'', ''me'', ''Android'']]"
  by (simp add: ancestors_def sdk_dir_def pc_def bs_def upt_rec)

lemma pc_bare_mkdir:
  "mkdir_parents (sdk_dir pc) (fs (put zip_name (File ''PK'') bare)) =
     Some ((fs (put zip_name (File ''PK'') bare))
             (win [''C:'', ''Users''] \<mapsto> Dir, win [''C:'', ''Users'', ''me''] \<mapsto> Dir,
              win [''C:'', ''Users'', ''me'', ''Android''] \<mapsto> Dir, sdk_dir pc \<mapsto> Dir))"
  unfolding mkdir_parents_def pc_sdk_ancestors
  by (simp add: put_def bare_def sdk_dir_def pc_def zip_name_def bs_def)

lemma ensure_git_falls_back:
  assumes "spawn h update_path_argv (world s) = (Completed rc1 out1, w1)"
      and "utf8_ok out1"
      and "putenv_ok out1"
      and "which h w1 ''git'' out1 = None"
      and "spawn h winget_argv w1 = (Completed rc out, w2)"
      and "spawn h update_path_argv w2 = (Completed rc2 out2, w3)"
      and "utf8_ok out2"
      and "putenv_ok out2"
      and "rc \<noteq> 0 \<or> which h w3 ''git'' out2 = None"
  shows "ensure_git h s =
      git_manual h (s\<lparr>git_path := ''git'', world := w3, environ_path := out2,
                  trace := trace s @
                    [Log INFO ''Checking for Git...'',
                     Spawn update_path_argv,
                     Log INFO ''Attempting to install Git with winget...'',
                     Spawn winget_argv,
                     Spawn update_path_argv,
                     Log WARNING git_winget_msg]\<rparr>)"
  using assms
  by (auto simp add: ensure_git_def and_then_def run_def update_path_def logger_def emit_def)

lemma pc_moved_like_pc:
  "spawn pc_moved = spawn pc"
  "which pc_moved = which pc"
  "http_get pc_moved url w = Some moved_page"
  by (simp_all add: pc_moved_def which_def fun_eq_iff)

lemma pc_moved_ready_run:
  "ensure_git pc_moved (boot ready answers) = Inr (after_git answers)"
  "ensure_flutter pc_moved (after_git answers) = Inr (after_flutter answers)"
proof -
  have r: "spawn pc_moved update_path_argv (world (boot ready answers))
             = (Completed 0 (echoed ready), ready)"
    by (simp add: pc_moved_like_pc pc_refresh boot_def)
  show "ensure_git pc_moved (boot ready answers) = Inr (after_git answers)"
    unfolding ensure_git_present
      [OF r pc_ready_tools(1) pc_ready_tools(4) pc_ready_tools(2) [folded pc_moved_like_pc(2)]]
    by (simp add: after_git_def boot_def)
  have r': "spawn pc_moved update_path_argv (world (after_git answers))
             = (Completed 0 (echoed ready), ready)"
    by (simp add: pc_moved_like_pc pc_refresh after_git_def boot_def)
  show "ensure_flutter pc_moved (after_git answers) = Inr (after_flutter answers)"
    unfolding ensure_flutter_present
      [OF r' pc_ready_tools(1) pc_ready_tools(4) pc_ready_tools(3) [folded pc_moved_like_pc(2)]]
    by (simp add: after_flutter_def after_git_def boot_def)
qed

lemma pc_moved_assets:
  "commandlinetools_installer_re moved_page = None"
  "git_installer_re moved_page = None"
  by (simp_all add: commandlinetools_installer_re_def git_installer_re_def match_at_def
        startswith_def moved_page_def)

lemma pc_moved_ready_main:
  "main pc_moved (boot ready [''y'', []]) =
     Inr ((after_flutter [''y'', []])
           \<lparr>stdin := [], sdkmanager_path := Some ''sdkmanager'',
             trace := trace (after_flutter [''y'', []]) @
               [Input android_prompt,
                Log INFO ''Attempting to install Android toolchain..'',
                Log INFO ''Downloading Android command line tools...'',
                HttpGet studio_url,
                Input ''Press enter to exit...'']\<rparr>)"
proof -
  define s3 where "s3 = (after_flutter [''y'', []])
           \<lparr>sdkmanager_path := Some ''sdkmanager'', stdin := [[]],
             trace := trace (after_flutter [''y'', []]) @
               [Input android_prompt,
                Log INFO ''Attempting to install Android toolchain..'',
                Log INFO ''Downloading Android command line tools...'',
                HttpGet studio_url]\<rparr>"
  have a: "android pc_moved (after_flutter [''y'', []]) = Inr s3"
    unfolding s3_def
    by (simp add: android_opted_in [OF after_flutter_facts(2) lower_y pc_moved_like_pc(3)]
          pc_moved_assets)
  have i: "stdin s3 = [] # []"
    by (simp add: s3_def)
  show ?thesis
    unfolding main_after_tools [OF pc_moved_ready_run] a
    by (simp add: and_then_def input_line [OF i]) (simp add: s3_def emit_def)
qed

lemma pc_moved_bare_main:
  "main pc_moved (boot bare []) =
     Inl (SysExit 1,
          (boot bare [])
            \<lparr>environ_path := echoed bare, git_path := ''git'',
              trace := [Log INFO ''Checking for Git...'',
                        Spawn update_path_argv,
                        Log INFO ''Attempting to install Git with winget...'',
                        Spawn winget_argv,
                        Spawn update_path_argv,
                        Log WARNING git_winget_msg,
                        HttpGet git_release_url,
                        Log ERROR git_manual_msg]\<rparr>)"
proof -
  define t where "t = (boot bare [])\<lparr>git_path := ''git'', world := bare,
                  environ_path := echoed bare,
                  trace := trace (boot bare []) @
                    [Log INFO ''Checking for Git...'',
                     Spawn update_path_argv,
                     Log INFO ''Attempting to install Git with winget...'',
                     Spawn winget_argv,
                     Spawn update_path_argv,
                     Log WARNING git_winget_msg]\<rparr>"
  have r: "spawn pc_moved update_path_argv (world (boot bare [])) = (Completed 0 (echoed bare), bare)"
    "spawn pc_moved update_path_argv bare = (Completed 0 (echoed bare), bare)"
    by (simp_all add: pc_moved_like_pc pc_refresh boot_def)
  have n: "which pc_moved bare ''git'' (echoed bare) = None"
    by (simp add: pc_moved_like_pc pc_bare_tools)
  have wg: "spawn pc_moved winget_argv bare = (Completed 1 [], bare)"
    by (simp add: pc_moved_like_pc pc_bare_install)
  have f: "(1::int) \<noteq> 0 \<or> which pc_moved bare ''git'' (echoed bare) = None"
    by simp
  have g: "ensure_git pc_moved (boot bare []) = git_manual pc_moved t"
    unfolding t_def
    by (rule ensure_git_falls_back
          [OF r(1) pc_bare_tools(1) pc_bare_tools(5) n wg r(2) pc_bare_tools(1) pc_bare_tools(5) f])
  have p: "http_get pc_moved git_release_url (world t) = Some moved_page"
    by (rule pc_moved_like_pc)
  show ?thesis
    by (simp add: main_def g git_manual_not_found [OF p pc_moved_assets(2)] and_then_def)
       (simp add: t_def boot_def)
qed

section \<open>Claims\<close>

text \<open>
  C1 (amended). For the version-control tool and for the SDK: when the executable resolves
  on the freshly refreshed search path, the flow ends at once. The refresh is the only
  process it has spawned, it has fetched nothing from the network, and the persisted store
  is as the refresh left it; the whole effect is the new in-memory \<open>PATH\<close>, the located
  path and two log lines. (The optional platform tools are not probed before they are
  installed: only the user's answer gates them.)
\<close>

theorem present_tool_no_strategy:
  "(spawn h update_path_argv (world s) = (Completed rc out, w') \<and> utf8_ok out \<and> putenv_ok out
      \<and> which h w' ''git'' out = Some p \<longrightarrow>
    ensure_git h s =
      Inr (s\<lparr>world := w', environ_path := out, git_path := p,
             trace := trace s @ [Log INFO ''Checking for Git...'', Spawn update_path_argv,
                                 Log INFO ''Git found'']\<rparr>))
   \<and> (spawn h update_path_argv (world s) = (Completed rc out, w') \<and> utf8_ok out \<and> putenv_ok out
      \<and> which h w' ''flutter'' out = Some q \<longrightarrow>
    ensure_flutter h s =
      Inr (s\<lparr>world := w', environ_path := out, flutter_path := q,
             trace := trace s @ [Log INFO ''Checking for Flutter...'', Spawn update_path_argv,
                                 Log INFO ''Flutter SDK is already installed, skipping...'']\<rparr>))"
  using ensure_git_present ensure_flutter_present by blast

theorem present_tool_no_strategy_witness:
  "spawn pc update_path_argv (world (boot ready [])) = (Completed 0 (echoed ready), ready)
   \<and> utf8_ok (echoed ready)
   \<and> putenv_ok (echoed ready)
   \<and> which pc ready ''git'' (echoed ready) = Some git_exe
   \<and> which pc ready ''flutter'' (echoed ready) = Some (win [flutter_bin, ''flutter.BAT''])
   \<and> ensure_git pc (boot ready []) =
       Inr ((boot ready [])\<lparr>environ_path := echoed ready, git_path := git_exe,
              trace := [Log INFO ''Checking for Git...'', Spawn update_path_argv,
                        Log INFO ''Git found'']\<rparr>)
   \<and> ensure_flutter pc (boot ready []) =
       Inr ((boot ready [])\<lparr>environ_path := echoed ready,
              flutter_path := win [flutter_bin, ''flutter.BAT''],
              trace := [Log INFO ''Checking for Flutter...'', Spawn update_path_argv,
                        Log INFO ''Flutter SDK is already installed, skipping...'']\<rparr>)"
proof -
  have r: "spawn pc update_path_argv (world (boot ready [])) = (Completed 0 (echoed ready), ready)"
    by (simp add: pc_refresh boot_def)
  note inst = present_tool_no_strategy
    [of pc "boot ready []" 0 "echoed ready" ready git_exe "win [flutter_bin, ''flutter.BAT'']"]
  from inst r pc_ready_tools
  have "ensure_git pc (boot ready []) =
      Inr ((boot ready [])\<lparr>world := ready, environ_path := echoed ready, git_path := git_exe,
             trace := trace (boot ready []) @ [Log INFO ''Checking for Git...'',
                Spawn update_path_argv, Log INFO ''Git found'']\<rparr>)"
    and "ensure_flutter pc (boot ready []) =
      Inr ((boot ready [])\<lparr>world := ready, environ_path := echoed ready,
             flutter_path := win [flutter_bin, ''flutter.BAT''],
             trace := trace (boot ready []) @ [Log INFO ''Checking for Flutter...'',
                Spawn update_path_argv,
                Log INFO ''Flutter SDK is already installed, skipping...'']\<rparr>)"
    by blast+
  then show ?thesis
    using r pc_ready_tools by (simp add: boot_def)
qed

text \<open>
  The claim as stated, for every tool, fails for the platform tools: \<open>sdkmanager.bat\<close>
  resolves on the freshly refreshed path, the user answers \<open>y\<close>, and the flow fetches the
  download page, downloads the archive and writes the user-scope store.
\<close>

theorem platform_tools_reinstalled_counterexample:
  "which pc (world fresh) ''sdkmanager.bat'' (environ_path fresh)
     = Some (win [tools_bin, ''sdkmanager.bat''])
   \<and> trace (final (android pc fresh)) =
       trace fresh @
         [Input android_prompt,
          Log INFO ''Attempting to install Android toolchain..'',
          Log INFO ''Downloading Android command line tools...'',
          HttpGet studio_url,
          Download (commandlinetools_installer_url zip_name) zip_name,
          Log INFO (''Downloaded Android command line tools, attempting to unzip to ''
                    @ sdk_dir pc),
          Log DEBUG (''Creating '' @ sdk_dir pc @ '' if not exists''),
          Log DEBUG (''Unzipping '' @ zip_name @ '' to '' @ sdk_dir pc),
          Log INFO ''Attempting to update PATH...'',
          Spawn (set_path_argv User (win [''C:'', ''bin''] @ '';'' @ android_bin)),
          Log INFO ''Updated PATH'',
          Spawn update_path_argv,
          Log INFO ''Android command line tools successfully installed'']
   \<and> env_store (world (final (android pc fresh))) User
       = Some (win [''C:'', ''bin''] @ '';'' @ android_bin)"
proof -
  define w2 where "w2 = set_scope User (win [''C:'', ''bin''] @ '';'' @ android_bin)
               (put zip_name (File ''PK'') full)"
  define s5 where "s5 = fresh\<lparr>world := w2,
                stdin := [], sdkmanager_path := Some ''sdkmanager'',
                trace := trace fresh @
                  [Input android_prompt,
                   Log INFO ''Attempting to install Android toolchain..'',
                   Log INFO ''Downloading Android command line tools...'',
                   HttpGet studio_url,
                   Download (commandlinetools_installer_url zip_name) zip_name,
                   Log INFO (''Downloaded Android command line tools, attempting to unzip to ''
                             @ sdk_dir pc),
                   Log DEBUG (''Creating '' @ sdk_dir pc @ '' if not exists''),
                   Log DEBUG (''Unzipping '' @ zip_name @ '' to '' @ sdk_dir pc),
                   Log INFO ''Attempting to update PATH...'',
                   Spawn (set_path_argv User (win [''C:'', ''bin''] @ '';'' @ android_bin)),
                   Log INFO ''Updated PATH'']\<rparr>"
  have w: "world fresh = full" and i: "stdin fresh = [''y'']"
    and e: "environ_path fresh = echoed full"
    by (simp_all add: pc_fresh boot_def)
  have y: "lower ''y'' = ''y''"
    by (simp add: lower_def lower_char_def)
  have a: "android pc fresh = verify_sdkmanager pc s5"
    unfolding s5_def w2_def by (rule pc_android [OF i y, unfolded w, OF pc_full_facts])
  have r: "spawn pc update_path_argv (world s5) = (Completed 0 (echoed w2), w2)"
    by (simp add: s5_def pc_refresh)
  have v: "verify_sdkmanager pc s5 =
           Inr (s5\<lparr>world := w2, environ_path := echoed w2,
                  sdkmanager_path := which pc w2 ''sdkmanager'' (echoed w2),
                  trace := trace s5 @ [Spawn update_path_argv,
                    Log INFO ''Android command line tools successfully installed'']\<rparr>)"
    by (rule verify_sdkmanager_present [OF r]) (simp_all only: w2_def pc_full_after)
  show ?thesis
    unfolding a v
    by (simp add: final_def s5_def w2_def w e pc_full_tools set_scope_def)
qed

text \<open>
  C2. The version-control tool is absent after the first refresh. The package manager is
  run first; when it ends with a non-zero status, or Git still does not resolve after the
  next refresh, the release page is requested, the installer it names is downloaded and
  run; when that process ends with status 0 and Git resolves after a further refresh, the
  flow succeeds through this second strategy. The trace shows every step, once and in the
  declared order.
\<close>

theorem git_fallback_in_declared_order:
  assumes "spawn h update_path_argv (world s) = (Completed rc1 out1, w1)"
      and "utf8_ok out1"
      and "putenv_ok out1"
      and "which h w1 ''git'' out1 = None"
      and "spawn h winget_argv w1 = (Completed rc out, w2)"
      and "spawn h update_path_argv w2 = (Completed rc2 out2, w3)"
      and "utf8_ok out2"
      and "putenv_ok out2"
      and "rc \<noteq> 0 \<or> which h w3 ''git'' out2 = None"
      and "http_get h git_release_url w3 = Some page"
      and "git_installer_re page = Some m"
      and "urlretrieve h (git_installer_url m) (installer_name (git_installer_url m)) w3 = Some w4"
      and "spawn h [installer_name (git_installer_url m)] w4 = (Completed 0 out4, w5)"
      and "spawn h update_path_argv w5 = (Completed rc3 out3, w6)"
      and "utf8_ok out3"
      and "putenv_ok out3"
      and "which h w6 ''git'' out3 = Some p"
  shows "ensure_git h s =
           Inr (s\<lparr>world := w6, environ_path := out3, git_path := p,
                  trace := trace s @
                    [Log INFO ''Checking for Git...'',
                     Spawn update_path_argv,
                     Log INFO ''Attempting to install Git with winget...'',
                     Spawn winget_argv,
                     Spawn update_path_argv,
                     Log WARNING git_winget_msg,
                     HttpGet git_release_url,
                     Download (git_installer_url m) (installer_name (git_installer_url m)),
                     Spawn [installer_name (git_installer_url m)],
                     Spawn update_path_argv,
                     Log INFO ''Git successfully installed'']\<rparr>)"
proof -
  have manual: "git_manual h t =
           Inr (t\<lparr>world := w6, environ_path := out3, git_path := p,
                  trace := trace t @
                    [HttpGet git_release_url,
                     Download (git_installer_url m) (installer_name (git_installer_url m)),
                     Spawn [installer_name (git_installer_url m)],
                     Spawn update_path_argv,
                     Log INFO ''Git successfully installed'']\<rparr>)"
    if "world t = w3" for t
    using that assms(10-17)
    by (simp add: git_manual_def and_then_def fetch_def retrieve_def run_def update_path_def
          logger_def emit_def)
  note first = ensure_git_falls_back [OF assms(1-9)]
  show ?thesis
    unfolding first by (subst manual) simp_all
qed

theorem git_fallback_in_declared_order_witness:
  "which pc bare ''git'' (echoed bare) = None
   \<and> spawn pc winget_argv bare = (Completed 1 [], bare)
   \<and> git_installer_re release_page = Some git_asset
   \<and> spawn pc [git_setup] (put git_setup (File ''PK'') bare) = (Completed 0 [], bare_installed)
   \<and> which pc bare_installed ''git'' (echoed bare_installed) = Some git_exe
   \<and> ensure_git pc (boot bare []) =
       Inr ((boot bare [])
             \<lparr>world := bare_installed, environ_path := echoed bare_installed,
               git_path := git_exe,
               trace :=
                 [Log INFO ''Checking for Git...'',
                  Spawn update_path_argv,
                  Log INFO ''Attempting to install Git with winget...'',
                  Spawn winget_argv,
                  Spawn update_path_argv,
                  Log WARNING git_winget_msg,
                  HttpGet git_release_url,
                  Download (git_installer_url git_asset) git_setup,
                  Spawn [git_setup],
                  Spawn update_path_argv,
                  Log INFO ''Git successfully installed'']\<rparr>)"
proof -
  have r1: "spawn pc update_path_argv (world (boot bare [])) = (Completed 0 (echoed bare), bare)"
    by (simp add: pc_refresh boot_def)
  have f: "(1::int) \<noteq> 0 \<or> which pc bare ''git'' (echoed bare) = None"
    by simp
  have dl: "urlretrieve pc (git_installer_url git_asset)
              (installer_name (git_installer_url git_asset)) bare
            = Some (put git_setup (File ''PK'') bare)"
    by (simp add: pc_git_asset pc_bare_install)
  have run: "spawn pc [installer_name (git_installer_url git_asset)]
               (put git_setup (File ''PK'') bare) = (Completed 0 [], bare_installed)"
    by (simp add: pc_git_asset pc_bare_install)
  note inst = git_fallback_in_declared_order
    [OF r1 pc_bare_tools(1) pc_bare_tools(5) pc_bare_tools(2) pc_bare_install(1)
        pc_refresh pc_bare_tools(1) pc_bare_tools(5) f
        pc_bare_install(2) pc_git_asset(1) dl run
        pc_refresh pc_bare_tools(3) pc_bare_tools(6) pc_bare_tools(4)]
  show ?thesis
    using inst pc_bare_tools pc_bare_install pc_git_asset
    by (simp add: boot_def)
qed

text \<open>
  C3 (amended). When the optional platform-tools flow has run its installation (the user
  opted in, the page named an archive, the download, the extraction step and the write of
  the user-scope path returned) and \<open>sdkmanager.bat\<close> does not resolve after the refresh,
  the script logs the manual-installation error and leaves with \<open>sys.exit(1)\<close>: the exit
  status of the process is 1, as for a required tool.
\<close>

theorem optional_tool_unresolved_exits_1:
  assumes "ensure_git h s0 = Inr s1"
      and "ensure_flutter h s1 = Inr s2"
      and "stdin s2 = a # rest"
      and "lower a = ''y''"
      and "http_get h studio_url (world s2) = Some page"
      and "commandlinetools_installer_re page = Some m"
      and "retrieve h (commandlinetools_installer_url m)
             (installer_name (commandlinetools_installer_url m))
             (s2\<lparr>sdkmanager_path := Some ''sdkmanager'', stdin := rest,
                 trace := trace s2 @ [Input android_prompt,
                   Log INFO ''Attempting to install Android toolchain..'',
                   Log INFO ''Downloading Android command line tools...'',
                   HttpGet studio_url]\<rparr>) = Inr s3"
      and "extract_step h (installer_name (commandlinetools_installer_url m)) s3 = Inr s4"
      and "append_path h User android_bin (logger INFO ''Attempting to update PATH...'' s4)
             = Inr s5"
      and "spawn h update_path_argv (world s5) = (Completed rc out, w')"
      and "utf8_ok out"
      and "putenv_ok out"
      and "which h w' ''sdkmanager.bat'' out = None"
  shows "main h s0 =
           Inl (SysExit 1,
                s5\<lparr>world := w', environ_path := out,
                   trace := trace s5 @ [Spawn update_path_argv, Log ERROR android_manual_msg]\<rparr>)
         \<and> exit_status (main h s0) = 1"
proof -
  have "android h s2 = verify_sdkmanager h s5"
    by (rule android_to_verification [OF assms(3-9)])
  then have "main h s0 =
           Inl (SysExit 1,
                s5\<lparr>world := w', environ_path := out,
                   trace := trace s5 @ [Spawn update_path_argv, Log ERROR android_manual_msg]\<rparr>)"
    by (simp add: main_after_tools [OF assms(1,2)] verify_sdkmanager_absent [OF assms(10-13)]
          and_then_def)
  then show ?thesis
    by (simp add: exit_status_def)
qed

theorem optional_tool_unresolved_exits_1_witness:
  "ensure_git pc (boot ready [''y'']) = Inr (after_git [''y''])
   \<and> ensure_flutter pc (after_git [''y'']) = Inr (after_flutter [''y''])
   \<and> stdin (after_flutter [''y'']) = [''y'']
   \<and> http_get pc studio_url (world (after_flutter [''y''])) = Some studio_page
   \<and> commandlinetools_installer_re studio_page = Some zip_name
   \<and> spawn pc update_path_argv ready_after = (Completed 0 (echoed ready_after), ready_after)
   \<and> which pc ready_after ''sdkmanager.bat'' (echoed ready_after) = None
   \<and> exit_status (main pc (boot ready [''y''])) = 1"
proof -
  have page: "http_get pc studio_url (world (after_flutter [''y''])) = Some studio_page"
    by (simp add: pc_def studio_url_def git_release_url_def)
  from pc_android_steps [of "after_flutter [''y'']" "''y''" "[]",
      unfolded after_flutter_facts, OF refl lower_y pc_ready_facts]
  obtain s3 s4 s5 where
    dl: "retrieve pc (commandlinetools_installer_url zip_name)
          (installer_name (commandlinetools_installer_url zip_name))
          ((after_flutter [''y''])\<lparr>sdkmanager_path := Some ''sdkmanager'', stdin := [],
             trace := trace (after_flutter [''y'']) @ [Input android_prompt,
               Log INFO ''Attempting to install Android toolchain..'',
               Log INFO ''Downloading Android command line tools...'',
               HttpGet studio_url]\<rparr>) = Inr s3"
    and ex: "extract_step pc (installer_name (commandlinetools_installer_url zip_name)) s3 = Inr s4"
    and ap: "append_path pc User android_bin (logger INFO ''Attempting to update PATH...'' s4)
          = Inr s5"
    and w5: "world s5 = ready_after"
    by (auto simp add: ready_after_def)
  have r: "spawn pc update_path_argv (world s5) = (Completed 0 (echoed ready_after), ready_after)"
    by (simp add: w5 pc_refresh)
  have u: "utf8_ok (echoed ready_after)"
    and n: "which pc ready_after ''sdkmanager.bat'' (echoed ready_after) = None"
    and v: "putenv_ok (echoed ready_after)"
    using pc_ready_after by (simp_all only: ready_after_def)
  from optional_tool_unresolved_exits_1
    [OF pc_ready_run after_flutter_facts(2) lower_y page pc_studio_asset dl ex ap r u v n]
  have "exit_status (main pc (boot ready [''y''])) = 1"
    by blast
  then show ?thesis
    using pc_ready_run after_flutter_facts(2) page pc_studio_asset n
    by (simp add: pc_refresh)
qed

text \<open>
  The claim as stated fails: Git and Flutter are found, the user opts in, the archive is
  downloaded, \<open>sdkmanager.bat\<close> does not resolve after the refresh, and the exit status of
  the process is 1, the error for the optional tool being the last thing logged.
\<close>

theorem optional_failure_counterexample:
  "exit_status (main pc (boot ready [''y''])) = 1
   \<and> trace (final (main pc (boot ready [''y'']))) =
       [Log INFO ''Checking for Git...'', Spawn update_path_argv, Log INFO ''Git found'',
        Log INFO ''Checking for Flutter...'', Spawn update_path_argv,
        Log INFO ''Flutter SDK is already installed, skipping...'',
        Input android_prompt,
        Log INFO ''Attempting to install Android toolchain..'',
        Log INFO ''Downloading Android command line tools...'',
        HttpGet studio_url,
        Download (commandlinetools_installer_url zip_name) zip_name,
        Log INFO (''Downloaded Android command line tools, attempting to unzip to ''
                  @ sdk_dir pc),
        Log DEBUG (''Creating '' @ sdk_dir pc @ '' if not exists''),
        Log DEBUG (''Unzipping '' @ zip_name @ '' to '' @ sdk_dir pc),
        Log INFO ''Attempting to update PATH...'',
        Spawn (set_path_argv User (win [''C:'', ''bin''] @ '';'' @ android_bin)),
        Log INFO ''Updated PATH'',
        Spawn update_path_argv,
        Log ERROR android_manual_msg]"
  unfolding pc_ready_optin
  by (simp add: exit_status_def final_def after_flutter_def after_git_def)

text \<open>
  C4. On a target without \<open>cmdline-tools\<close> the code extracts nothing: the archive has been
  downloaded and would unpack to a \<open>cmdline-tools\<close> directory, but the step returns having
  only written its three log lines. Where the SDK directory exists the file system is what
  it was; on a machine without it the SDK directory is created and stays empty. Neither
  \<open>cmdline-tools\<close> nor \<open>cmdline-tools\latest\<close> exists afterwards.
\<close>

theorem fresh_target_not_extracted:
  "fs (put zip_name (File ''PK'') ready) (cmdline_tools pc) = None
   \<and> fs (put zip_name (File ''PK'') ready) zip_name = Some (File ''PK'')
   \<and> read_zip pc ''PK'' = Some [(''cmdline-tools'', Dir)]
   \<and> extract_step pc zip_name (boot (put zip_name (File ''PK'') ready) []) =
       Inr ((boot (put zip_name (File ''PK'') ready) [])
             \<lparr>trace :=
                [Log INFO (''Downloaded Android command line tools, attempting to unzip to ''
                           @ sdk_dir pc),
                 Log DEBUG (''Creating '' @ sdk_dir pc @ '' if not exists''),
                 Log DEBUG (''Unzipping '' @ zip_name @ '' to '' @ sdk_dir pc)]\<rparr>)
   \<and> fs (world (final (extract_step pc zip_name (boot (put zip_name (File ''PK'') ready) []))))
        (win [cmdline_tools pc, ''latest'']) = None
   \<and> fs (put zip_name (File ''PK'') bare) (sdk_dir pc) = None
   \<and> trace (final (extract_step pc zip_name (boot (put zip_name (File ''PK'') bare) []))) =
       [Log INFO (''Downloaded Android command line tools, attempting to unzip to ''
                  @ sdk_dir pc),
        Log DEBUG (''Creating '' @ sdk_dir pc @ '' if not exists''),
        Log DEBUG (''Unzipping '' @ zip_name @ '' to '' @ sdk_dir pc)]
   \<and> fs (world (final (extract_step pc zip_name (boot (put zip_name (File ''PK'') bare) []))))
        (sdk_dir pc) = Some Dir
   \<and> fs (world (final (extract_step pc zip_name (boot (put zip_name (File ''PK'') bare) []))))
        (cmdline_tools pc) = None
   \<and> fs (world (final (extract_step pc zip_name (boot (put zip_name (File ''PK'') bare) []))))
        (win [cmdline_tools pc, ''latest'']) = None"
proof -
  let ?w = "put zip_name (File ''PK'') ready"
  let ?b = "put zip_name (File ''PK'') bare"
  let ?f = "(fs ?b)
             (win [''C:'', ''Users''] \<mapsto> Dir, win [''C:'', ''Users'', ''me''] \<mapsto> Dir,
              win [''C:'', ''Users'', ''me'', ''Android''] \<mapsto> Dir, sdk_dir pc \<mapsto> Dir)"
  have k: "zip_name \<noteq> sdk_dir pc" "zip_name \<noteq> cmdline_tools pc"
    "zip_name \<noteq> win [cmdline_tools pc, ''latest'']"
    by (simp_all add: zip_name_def sdk_dir_def cmdline_tools_def pc_def)
  have l: "fs ready (win [cmdline_tools pc, ''latest'']) = None"
    by (simp add: pc_defs bs_def)
  have mk: "mkdir_parents (sdk_dir pc) (fs (world (boot ?w []))) = Some (fs ?w)"
    using pc_ready_facts(2) k by (simp add: mkdir_parents_def boot_def put_def)
  have none: "fs ?w (cmdline_tools pc) = None"
    using pc_ready_facts(3) k by (simp add: put_def)
  have z: "read_zip pc ''PK'' = Some [(''cmdline-tools'', Dir)]"
    by (simp add: pc_def)
  have f: "fs ?w zip_name = Some (File ''PK'')"
    by (simp add: put_def)
  have l': "fs ?w (win [cmdline_tools pc, ''latest'']) = None"
    using l k by (simp add: put_def)
  have mkb: "mkdir_parents (sdk_dir pc) (fs (world (boot ?b []))) = Some ?f"
    unfolding boot_world by (rule pc_bare_mkdir)
  have nb: "fs ?b (sdk_dir pc) = None" "?f (sdk_dir pc) = Some Dir"
    "?f (cmdline_tools pc) = None" "?f (win [cmdline_tools pc, ''latest'']) = None"
    by (simp_all add: put_def bare_def sdk_dir_def cmdline_tools_def pc_def zip_name_def bs_def)
  show ?thesis
    unfolding extract_step_fresh [OF mk none] extract_step_fresh [OF mkb nb(3)]
    using none z f l' nb by (simp add: boot_def final_def)
qed

text \<open>
  C5 (amended). An append reads the scope's value and asks for that value, \<open>;\<close> and the
  directory to be stored, whatever the value already contains. When the write is carried
  out the stored value has one more occurrence of the directory than before, so appending
  the same directory twice leaves two occurrences more.
\<close>

theorem append_adds_an_occurrence:
  assumes "env_store (world s) sc = Some v"
      and "spawn h (set_path_argv sc (v @ '';'' @ dir)) (world s)
             = ps_set_path True sc (v @ '';'' @ dir) (world s)"
      and "CHR '';'' \<notin> set dir"
  shows "append_path h sc dir s =
           Inr (s\<lparr>world := (world s)\<lparr>env_store := (env_store (world s))(sc \<mapsto> v @ '';'' @ dir)\<rparr>,
                  trace := trace s @ [Spawn (set_path_argv sc (v @ '';'' @ dir)),
                                      Log INFO ''Updated PATH'']\<rparr>)
         \<and> count_list (split_on CHR '';'' (v @ '';'' @ dir)) dir
             = Suc (count_list (split_on CHR '';'' v) dir)"
proof
  have "spawn h (set_path_argv sc (v @ '';'' @ dir)) (world s)
          = (Completed 0 [], (world s)\<lparr>env_store := (env_store (world s))(sc \<mapsto> v @ '';'' @ dir)\<rparr>)"
    using assms(2) by (simp add: ps_set_path_def)
  from append_path_completed [OF assms(1) this]
  show "append_path h sc dir s =
           Inr (s\<lparr>world := (world s)\<lparr>env_store := (env_store (world s))(sc \<mapsto> v @ '';'' @ dir)\<rparr>,
                  trace := trace s @ [Spawn (set_path_argv sc (v @ '';'' @ dir)),
                                      Log INFO ''Updated PATH'']\<rparr>)"
    by simp
next
  have "split_on CHR '';'' (v @ CHR '';'' # dir) = split_on CHR '';'' v @ [dir]"
    using split_on_append [of "CHR '';''" v dir] split_on_absent [OF assms(3)] by simp
  then show "count_list (split_on CHR '';'' (v @ '';'' @ dir)) dir
             = Suc (count_list (split_on CHR '';'' v) dir)"
    by simp
qed

theorem append_adds_an_occurrence_witness:
  "env_store (world (boot bare [])) Machine = Some (win [''C:'', ''Windows''])
   \<and> CHR '';'' \<notin> set flutter_bin
   \<and> count_list (split_on CHR '';'' (win [''C:'', ''Windows''])) flutter_bin = 0
   \<and> scope_value (world (final (append_path pc Machine flutter_bin (boot bare [])))) Machine
       = win [''C:'', ''Windows''] @ '';'' @ flutter_bin
   \<and> count_list (split_on CHR '';'' (win [''C:'', ''Windows''] @ '';'' @ flutter_bin)) flutter_bin
       = 1"
proof -
  have e: "env_store (world (boot bare [])) Machine = Some (win [''C:'', ''Windows''])"
    by (simp add: boot_def bare_def)
  have sp: "spawn pc (set_path_argv Machine (win [''C:'', ''Windows''] @ '';'' @ flutter_bin))
              (world (boot bare []))
            = ps_set_path True Machine (win [''C:'', ''Windows''] @ '';'' @ flutter_bin)
                (world (boot bare []))"
    unfolding boot_world by (rule pc_set_machine(1))
  have z: "count_list (split_on CHR '';'' (win [''C:'', ''Windows''])) flutter_bin = 0"
    by (simp add: flutter_bin_def bs_def)
  note inst = append_adds_an_occurrence [OF e sp flutter_bin_plain]
  from inst have "scope_value (world (final (append_path pc Machine flutter_bin (boot bare [])))) Machine
       = win [''C:'', ''Windows''] @ '';'' @ flutter_bin"
    by (simp add: final_def scope_value_def)
  moreover from inst z
  have "count_list (split_on CHR '';'' (win [''C:'', ''Windows''] @ '';'' @ flutter_bin)) flutter_bin
       = 1"
    by simp
  ultimately show ?thesis
    using e z flutter_bin_plain by simp
qed

text \<open>
  The claim as stated fails: two appends of the Flutter directory to the machine scope
  leave it twice in the stored value.
\<close>

theorem append_twice_counterexample:
  "scope_value (world (final (append_path pc Machine flutter_bin
       (final (append_path pc Machine flutter_bin (boot bare [])))))) Machine
     = win [''C:'', ''Windows''] @ '';'' @ flutter_bin @ '';'' @ flutter_bin
   \<and> count_list (split_on CHR '';''
         (win [''C:'', ''Windows''] @ '';'' @ flutter_bin @ '';'' @ flutter_bin)) flutter_bin
     = 2"
proof -
  define w1 where "w1 = set_scope Machine (win [''C:'', ''Windows''] @ '';'' @ flutter_bin) bare"
  define s1 where "s1 = (boot bare [])\<lparr>world := w1,
      trace := trace (boot bare []) @
        [Spawn (set_path_argv Machine (win [''C:'', ''Windows''] @ '';'' @ flutter_bin)),
         if (0::int) = 0 then Log INFO ''Updated PATH'' else Log WARNING path_failure_msg]\<rparr>"
  have e: "env_store (world (boot bare [])) Machine = Some (win [''C:'', ''Windows''])"
    by (simp add: boot_def bare_def)
  have sp: "spawn pc (set_path_argv Machine (win [''C:'', ''Windows''] @ '';'' @ flutter_bin))
              (world (boot bare [])) = (Completed 0 [], w1)"
    unfolding boot_world w1_def pc_set_machine(1) by (simp add: ps_set_path_def set_scope_def)
  have a1: "append_path pc Machine flutter_bin (boot bare []) = Inr s1"
    unfolding s1_def by (rule append_path_completed [OF e sp])
  have e1: "env_store (world s1) Machine = Some (win [''C:'', ''Windows''] @ '';'' @ flutter_bin)"
    by (simp add: s1_def w1_def set_scope_def)
  have ws: "world s1 = w1"
    by (simp add: s1_def)
  have sp1: "spawn pc (set_path_argv Machine
                ((win [''C:'', ''Windows''] @ '';'' @ flutter_bin) @ '';'' @ flutter_bin)) (world s1)
             = (Completed 0 [],
                set_scope Machine
                  ((win [''C:'', ''Windows''] @ '';'' @ flutter_bin) @ '';'' @ flutter_bin) bare)"
    unfolding ws w1_def pc_set_machine(3) by (simp add: ps_set_path_def set_scope_def)
  note a2 = append_path_completed [OF e1 sp1]
  have c: "count_list (split_on CHR '';''
         (win [''C:'', ''Windows''] @ '';'' @ flutter_bin @ '';'' @ flutter_bin)) flutter_bin = 2"
    by (simp add: flutter_bin_def bs_def)
  show ?thesis
    unfolding a1 final_def sum.case a2 using c
    by (simp add: scope_value_def set_scope_def)
qed

text \<open>
  C6. The SDK directory exists and already holds \<open>cmdline-tools\<close>. When the answer to the
  overwrite question is anything but \<open>y\<close> or \<open>Y\<close>, the step logs that the installation is
  skipped and returns: apart from the answer it has read and the lines it has logged the
  state is what it was, the whole file system included, so nothing under the existing
  directory has been removed, extracted over or renamed.
\<close>

theorem decline_leaves_target_untouched:
  assumes "fs (world s) (sdk_dir h) = Some Dir"
      and "fs (world s) (cmdline_tools h) \<noteq> None"
      and "stdin s = a # rest"
      and "lower a \<noteq> ''y''"
  shows "extract_step h name s =
           Inr (s\<lparr>stdin := rest,
                  trace := trace s @
                    [Log INFO (''Downloaded Android command line tools, attempting to unzip to ''
                               @ sdk_dir h),
                     Log DEBUG (''Creating '' @ sdk_dir h @ '' if not exists''),
                     Log DEBUG (''Unzipping '' @ name @ '' to '' @ sdk_dir h),
                     Log WARNING (cmdline_tools h @ '' already exists, overwrite? [y/N]''),
                     Input [],
                     Log INFO ''Skipping Android command line tools installation'']\<rparr>)"
proof -
  have mk: "mkdir_parents (sdk_dir h) (fs (world s)) = Some (fs (world s))"
    using assms(1) by (simp add: mkdir_parents_def)
  show ?thesis
    unfolding extract_step_declined [OF mk assms(2,3,4)] by simp
qed

theorem decline_leaves_target_untouched_witness:
  "fs (world (boot unpacked [''no''])) (sdk_dir pc) = Some Dir
   \<and> fs (world (boot unpacked [''no''])) (cmdline_tools pc) = Some Dir
   \<and> lower ''no'' \<noteq> ''y''
   \<and> extract_step pc zip_name (boot unpacked [''no'']) =
       Inr ((boot unpacked [])
             \<lparr>trace :=
                [Log INFO (''Downloaded Android command line tools, attempting to unzip to ''
                           @ sdk_dir pc),
                 Log DEBUG (''Creating '' @ sdk_dir pc @ '' if not exists''),
                 Log DEBUG (''Unzipping '' @ zip_name @ '' to '' @ sdk_dir pc),
                 Log WARNING (cmdline_tools pc @ '' already exists, overwrite? [y/N]''),
                 Input [],
                 Log INFO ''Skipping Android command line tools installation'']\<rparr>)
   \<and> fs (world (final (extract_step pc zip_name (boot unpacked [''no'']))))
         (win [cmdline_tools pc, ''NOTICE.txt'']) = Some (File ''keep'')"
proof -
  have d: "fs (world (boot unpacked [''no''])) (sdk_dir pc) = Some Dir"
    by (simp add: boot_world pc_unpacked_facts)
  have c: "fs (world (boot unpacked [''no''])) (cmdline_tools pc) \<noteq> None"
    by (simp add: boot_world pc_unpacked_facts)
  have i: "stdin (boot unpacked [''no'']) = [''no'']"
    by (simp add: boot_def)
  have l: "lower ''no'' \<noteq> ''y''"
    by (simp add: lower_def lower_char_def)
  note inst = decline_leaves_target_untouched [OF d c i l, of zip_name]
  show ?thesis
    using l pc_unpacked_facts
    by (simp add: inst final_def boot_world) (simp add: boot_def)
qed

text \<open>
  C7 (amended). With PowerShell evaluating the command text of the refresh, the in-memory
  \<open>PATH\<close> becomes the machine-scope value, \<open>;\<close>, the user-scope value and the line end.
  Split at \<open>;\<close> this is the machine-scope directories in their order followed by the
  user-scope directories in theirs. A tool found in a machine-scope directory therefore
  resolves to that location whatever the user scope holds, the lookup taking the first hit,
  provided the current directory does not hold it: the lookup probes the current directory
  before the directories of the path.
\<close>

theorem refresh_machine_before_user:
  assumes "pwsh update_path_argv (world s) = Some (spawn h update_path_argv (world s))"
      and "utf8_ok (scope_value (world s) Machine @ '';'' @ scope_value (world s) User @ eol)"
      and "putenv_ok (scope_value (world s) Machine @ '';'' @ scope_value (world s) User @ eol)"
  shows "update_path h s =
           Inr ((emit (Spawn update_path_argv) s)
                \<lparr>environ_path := scope_value (world s) Machine @ '';''
                                  @ scope_value (world s) User @ eol\<rparr>)
         \<and> split_on CHR '';'' (scope_value (world s) Machine @ '';'' @ scope_value (world s) User @ eol)
             = split_on CHR '';'' (scope_value (world s) Machine)
               @ split_on CHR '';'' (scope_value (world s) User @ eol)
         \<and> (\<forall>cmd p.
               dirname cmd = []
               \<and> find_file (world s) (split_on CHR '';'' (scope_value (world s) Machine))
                   (files_for (pathext h) cmd) = Some p
               \<and> find_file (world s) [''.''] (files_for (pathext h) cmd) = None
               \<longrightarrow> which h (world s) cmd
                     (scope_value (world s) Machine @ '';'' @ scope_value (world s) User @ eol)
                   = Some p)"
proof (intro conjI allI impI)
  have "spawn h update_path_argv (world s)
          = (Completed 0 (scope_value (world s) Machine @ '';'' @ scope_value (world s) User @ eol),
             world s)"
    using assms(1) [unfolded pwsh_update_path] by simp
  from update_path_completed [OF this assms(2,3)]
  show "update_path h s =
           Inr ((emit (Spawn update_path_argv) s)
                \<lparr>environ_path := scope_value (world s) Machine @ '';''
                                  @ scope_value (world s) User @ eol\<rparr>)"
    by (simp add: emit_def)
next
  show "split_on CHR '';'' (scope_value (world s) Machine @ '';'' @ scope_value (world s) User @ eol)
             = split_on CHR '';'' (scope_value (world s) Machine)
               @ split_on CHR '';'' (scope_value (world s) User @ eol)"
    using split_on_append [of "CHR '';''" "scope_value (world s) Machine"] by simp
next
  fix cmd p
  assume "dirname cmd = []
               \<and> find_file (world s) (split_on CHR '';'' (scope_value (world s) Machine))
                   (files_for (pathext h) cmd) = Some p
               \<and> find_file (world s) [''.''] (files_for (pathext h) cmd) = None"
  then show "which h (world s) cmd
                     (scope_value (world s) Machine @ '';'' @ scope_value (world s) User @ eol)
                   = Some p"
    using which_machine_first by blast
qed

theorem refresh_machine_before_user_witness:
  "pwsh update_path_argv twice = Some (spawn pc update_path_argv twice)
   \<and> utf8_ok (scope_value twice Machine @ '';'' @ scope_value twice User @ eol)
   \<and> putenv_ok (scope_value twice Machine @ '';'' @ scope_value twice User @ eol)
   \<and> dirname ''git'' = []
   \<and> find_file twice (split_on CHR '';'' (scope_value twice Machine))
        (files_for (pathext pc) ''git'') = Some (win [git_dir, ''git.EXE''])
   \<and> find_file twice [''.''] (files_for (pathext pc) ''git'') = None
   \<and> split_on CHR '';'' (scope_value twice User @ eol)
       = [win [''C:'', ''bin''], win [''C:'', ''Users'', ''me'', ''bin''] @ eol]
   \<and> find_file twice (split_on CHR '';'' (scope_value twice User @ eol))
        (files_for (pathext pc) ''git'') = Some (win [''C:'', ''bin'', ''git.EXE''])
   \<and> environ_path (final (update_path pc (boot twice [])))
       = scope_value twice Machine @ '';'' @ scope_value twice User @ eol
   \<and> which pc twice ''git'' (environ_path (final (update_path pc (boot twice []))))
       = Some (win [git_dir, ''git.EXE''])"
proof -
  have w: "world (boot twice []) = twice"
    by (simp add: boot_def)
  have h1: "pwsh update_path_argv (world (boot twice []))
              = Some (spawn pc update_path_argv (world (boot twice [])))"
    by (simp add: pwsh_update_path pc_refresh echoed_eq)
  have h2: "utf8_ok (scope_value (world (boot twice [])) Machine @ '';''
                     @ scope_value (world (boot twice [])) User @ eol)"
    by (simp add: eval_defs pc_defs)
  have h3: "putenv_ok (scope_value (world (boot twice [])) Machine @ '';''
                       @ scope_value (world (boot twice [])) User @ eol)"
    by (simp add: eval_defs pc_defs)
  have h4: "find_file twice (split_on CHR '';'' (scope_value twice Machine))
        (files_for (pathext pc) ''git'') = Some (win [git_dir, ''git.EXE''])"
    by (simp add: eval_defs pc_defs)
  have h5: "find_file twice [''.''] (files_for (pathext pc) ''git'') = None"
    by (simp add: eval_defs pc_defs)
  have h6: "split_on CHR '';'' (scope_value twice User @ eol)
       = [win [''C:'', ''bin''], win [''C:'', ''Users'', ''me'', ''bin''] @ eol]"
    by (simp add: eval_defs pc_defs)
  have h7: "find_file twice (split_on CHR '';'' (scope_value twice User @ eol))
        (files_for (pathext pc) ''git'') = Some (win [''C:'', ''bin'', ''git.EXE''])"
    by (simp add: eval_defs pc_defs)
  note inst = refresh_machine_before_user [OF h1 h2 h3, unfolded w]
  from inst have u: "update_path pc (boot twice []) =
           Inr ((emit (Spawn update_path_argv) (boot twice []))
                \<lparr>environ_path := scope_value twice Machine @ '';'' @ scope_value twice User @ eol\<rparr>)"
    by blast
  from inst h4 h5 dirname_tools(1) have r: "which pc twice ''git''
        (scope_value twice Machine @ '';'' @ scope_value twice User @ eol)
          = Some (win [git_dir, ''git.EXE''])"
    by blast
  show ?thesis
    using h1 h2 h3 h4 h5 h6 h7 u r dirname_tools(1) by (simp add: w final_def)
qed

text \<open>
  The claim as stated fails: Git is in a machine-scope directory, in a user-scope directory
  and in the current directory; after the refresh the lookup returns the copy in the
  current directory, not the machine-scope location.
\<close>

theorem current_directory_first_counterexample:
  "find_file here (split_on CHR '';'' (scope_value here Machine))
     (files_for (pathext pc) ''git'') = Some (win [git_dir, ''git.EXE''])
   \<and> find_file here (split_on CHR '';'' (scope_value here User @ eol))
       (files_for (pathext pc) ''git'') = Some (win [''C:'', ''bin'', ''git.EXE''])
   \<and> environ_path (final (update_path pc (boot here [])))
       = scope_value here Machine @ '';'' @ scope_value here User @ eol
   \<and> which pc here ''git'' (environ_path (final (update_path pc (boot here []))))
       = Some (win [''.'', ''git.EXE''])
   \<and> win [''.'', ''git.EXE''] \<noteq> win [git_dir, ''git.EXE'']"
proof -
  have r: "spawn pc update_path_argv (world (boot here [])) = (Completed 0 (echoed here), here)"
    by (simp add: pc_refresh boot_def)
  have u: "utf8_ok (echoed here)" and v: "putenv_ok (echoed here)"
    by (simp_all add: eval_defs pc_defs)
  have e: "environ_path (final (update_path pc (boot here []))) = echoed here"
    unfolding update_path_completed [OF r u v] by (simp add: final_def)
  have f: "find_file here (split_on CHR '';'' (scope_value here Machine))
     (files_for (pathext pc) ''git'') = Some (win [git_dir, ''git.EXE''])"
    "find_file here (split_on CHR '';'' (scope_value here User @ eol))
       (files_for (pathext pc) ''git'') = Some (win [''C:'', ''bin'', ''git.EXE''])"
    "which pc here ''git'' (echoed here) = Some (win [''.'', ''git.EXE''])"
    "win [''.'', ''git.EXE''] \<noteq> win [git_dir, ''git.EXE'']"
    by (simp_all add: eval_defs pc_defs)
  show ?thesis
    unfolding e using f by (simp add: echoed_eq)
qed

text \<open>
  C8. Git and Flutter are installed, the user opts in, and the page of the platform tools
  names no archive: the flow ends after the request without any message and the run goes
  on to its normal end, with exit status 0. On a machine without Git the same kind of page
  makes the version-control flow, where nothing is left to try, log the manual-installation
  guidance and leave with status 1.
\<close>

theorem missing_asset_silent_skip:
  "commandlinetools_installer_re moved_page = None
   \<and> http_get pc_moved studio_url ready = Some moved_page
   \<and> exit_status (main pc_moved (boot ready [''y'', []])) = 0
   \<and> trace (final (main pc_moved (boot ready [''y'', []]))) =
       [Log INFO ''Checking for Git...'', Spawn update_path_argv, Log INFO ''Git found'',
        Log INFO ''Checking for Flutter...'', Spawn update_path_argv,
        Log INFO ''Flutter SDK is already installed, skipping...'',
        Input android_prompt,
        Log INFO ''Attempting to install Android toolchain..'',
        Log INFO ''Downloading Android command line tools...'',
        HttpGet studio_url,
        Input ''Press enter to exit...'']
   \<and> git_installer_re moved_page = None
   \<and> http_get pc_moved git_release_url bare = Some moved_page
   \<and> exit_status (main pc_moved (boot bare [])) = 1
   \<and> trace (final (main pc_moved (boot bare []))) =
       [Log INFO ''Checking for Git...'',
        Spawn update_path_argv,
        Log INFO ''Attempting to install Git with winget...'',
        Spawn winget_argv,
        Spawn update_path_argv,
        Log WARNING git_winget_msg,
        HttpGet git_release_url,
        Log ERROR git_manual_msg]"
  unfolding pc_moved_ready_main pc_moved_bare_main
  using pc_moved_assets pc_moved_like_pc(3)
  by (simp add: exit_status_def final_def after_flutter_def after_git_def)

text \<open>
  C9. When the command that writes the persisted store ends with a non-zero status, the
  failure is logged as a warning that tells the user to update \<open>PATH\<close> by hand, the write
  has been spawned exactly once, and the step returns normally, so the script goes on with
  its next statement (the refresh). This holds for either scope and any directory, so for
  both places that write the store.
\<close>

theorem failed_write_warns_and_continues:
  assumes "env_store (world s) sc = Some v"
      and "spawn h (set_path_argv sc (v @ '';'' @ dir)) (world s) = (Completed rc out, w')"
      and "rc \<noteq> 0"
  shows "append_path h sc dir s =
           Inr (s\<lparr>world := w',
                  trace := trace s @ [Spawn (set_path_argv sc (v @ '';'' @ dir)),
                                      Log WARNING path_failure_msg]\<rparr>)"
  using append_path_completed [OF assms(1,2)] assms(3) by simp

theorem failed_write_warns_and_continues_witness:
  "env_store (world (boot bare [])) Machine = Some (win [''C:'', ''Windows''])
   \<and> spawn pc_user (set_path_argv Machine (win [''C:'', ''Windows''] @ '';'' @ flutter_bin))
         (world (boot bare [])) = (Completed 1 [], bare)
   \<and> append_path pc_user Machine flutter_bin (boot bare []) =
       Inr ((boot bare [])
             \<lparr>trace := [Spawn (set_path_argv Machine
                                 (win [''C:'', ''Windows''] @ '';'' @ flutter_bin)),
                         Log WARNING path_failure_msg]\<rparr>)"
proof -
  have e: "env_store (world (boot bare [])) Machine = Some (win [''C:'', ''Windows''])"
    by (simp add: boot_def bare_def)
  have sp: "spawn pc_user (set_path_argv Machine (win [''C:'', ''Windows''] @ '';'' @ flutter_bin))
              (world (boot bare [])) = (Completed 1 [], bare)"
    unfolding boot_world by (rule pc_set_machine(2))
  have n: "(1::int) \<noteq> 0"
    by simp
  note inst = failed_write_warns_and_continues [OF e sp n]
  show ?thesis
    using e sp inst by (simp add: boot_def)
qed




end
